theory Spec2Isabelle
  imports Complex_Main "HOL-Library.AList"
begin

section \<open>Data model\<close>

text \<open>
  Shallow embedding of the position and order lifecycle of
  \<^verbatim>\<open>Backend/Connection/config.py\<close> and of the classes \<^verbatim>\<open>TradingBot\<close> and
  \<^verbatim>\<open>LiveTradingBot\<close> of \<^verbatim>\<open>Backend/Connection/trading_implementation.py\<close>.

  Prices, quantities and fractions are Python floats in the source; they are modelled as
  exact reals, so binary rounding error is outside the model. Logging is not modelled,
  except for the two messages that tell a stop-loss exit from a take-profit exit.
\<close>

subsection \<open>Module constants of config.py and the JSON trading configuration\<close>

record config =
  TOTAL_PORTFOLIO_CAPITAL_USD :: real
  RISK_PER_TRADE_PERCENT :: real
  MAX_CONCURRENT_TRADES :: int
  GLOBAL_DRAWDOWN_LIMIT_PERCENT :: real
  TRADEABLE_ASSETS :: "string list"

text \<open>The values written in config.py.\<close>

definition config_py :: config where
  "config_py =
     \<lparr> TOTAL_PORTFOLIO_CAPITAL_USD = 100000,
       RISK_PER_TRADE_PERCENT = 0.01,
       MAX_CONCURRENT_TRADES = 5,
       GLOBAL_DRAWDOWN_LIMIT_PERCENT = 0.20,
       TRADEABLE_ASSETS = [''BTC/USDT''] \<rparr>"

text \<open>
  The two keys of \<^verbatim>\<open>trading_config.json\<close> that the lifecycle reads through
  \<^verbatim>\<open>config.load_trading_config()\<close>: \<^verbatim>\<open>hedge_mode\<close> (default False) and
  \<^verbatim>\<open>quantity_btc\<close> (default None). The file is taken as one snapshot for the
  length of an operation.
\<close>

record trading_config =
  hedge_mode :: bool
  quantity_btc :: "real option"

subsection \<open>Positions and the ledger\<close>

text \<open>The dict \<^verbatim>\<open>position_data\<close>; the key \<^verbatim>\<open>'size'\<close> is the field \<open>size_p\<close>.\<close>

record position =
  side :: int
  size_p :: real
  entry_price :: real
  stop_loss_price :: real
  take_profit_price :: real

text \<open>
  A value of \<^verbatim>\<open>self.positions\<close> is \<^verbatim>\<open>None\<close> or a Python dict. Two dict literals
  are stored: \<^verbatim>\<open>position_data\<close> itself (one-way mode, the five keys of a position) and
  \<^verbatim>\<open>{'long': ..., 'short': ...}\<close> (hedge mode); hedge mode also assigns the keys
  \<^verbatim>\<open>'long'\<close> and \<^verbatim>\<open>'short'\<close> of whatever dict is stored. So a dict is described by
  \<open>own\<close>, the five position keys when it has them, and by what \<^verbatim>\<open>.get('long')\<close> and
  \<^verbatim>\<open>.get('short')\<close> return (None for an absent key). Both literals are instances of
  \<^verbatim>\<open>dict\<close>.
\<close>

datatype symval =
  PyNone
  | PyDict (own: "position option") (long: "position option") (short: "position option")

datatype side_key = Long | Short

fun isinstance_dict :: "symval \<Rightarrow> bool" where
  "isinstance_dict PyNone = False"
| "isinstance_dict (PyDict ow l s) = True"

text \<open>\<^verbatim>\<open>d.get(key)\<close>; the source calls it on dicts only.\<close>

fun dict_get :: "symval \<Rightarrow> side_key \<Rightarrow> position option" where
  "dict_get (PyDict ow l s) Long = l"
| "dict_get (PyDict ow l s) Short = s"
| "dict_get PyNone k = None"

text \<open>\<^verbatim>\<open>d[key] = v\<close>; the source assigns into dicts only.\<close>

fun dict_set :: "symval \<Rightarrow> side_key \<Rightarrow> position option \<Rightarrow> symval" where
  "dict_set (PyDict ow l s) Long v = PyDict ow v s"
| "dict_set (PyDict ow l s) Short v = PyDict ow l v"
| "dict_set PyNone k v = PyNone"

text \<open>A \<^verbatim>\<open>position_data\<close> dict, or None, as a ledger value.\<close>

fun stored :: "position option \<Rightarrow> symval" where
  "stored None = PyNone"
| "stored (Some p) = PyDict (Some p) None None"

text \<open>
  The block commented "Convert from hedge mode structure": the long entry if there is
  one, else the short entry, else None.
\<close>

definition from_hedge_structure :: "symval \<Rightarrow> position option" where
  "from_hedge_structure sp =
     (if dict_get sp Long \<noteq> None then dict_get sp Long
      else if dict_get sp Short \<noteq> None then dict_get sp Short
      else None)"

subsection \<open>The exchange and the bot\<close>

datatype order_side = Buy | Sell

record order_request =
  order_side :: order_side
  amount :: real
  position_idx :: string

text \<open>
  The exchange is outside the program: \<open>ex n r\<close> tells whether the request \<open>r\<close>, sent
  as the \<open>n\<close>-th request, comes back as an order (True) or as None (False).
\<close>

type_synonym exchange = "nat \<Rightarrow> order_request \<Rightarrow> bool"

datatype event =
  StopLossTriggered string "side_key option"
  | TakeProfitTriggered string "side_key option"

record bot =
  symbol :: string
  positions :: "(string \<times> symval) list"
  peak_portfolio_value :: real
  max_concurrent_trades :: int
  global_drawdown_limit :: real
  stop_loss_pct :: real
  take_profit_pct :: real
  orders :: "(order_request \<times> bool) list"
  events :: "event list"

text \<open>\<^verbatim>\<open>TradingBot.__init__\<close>.\<close>

definition init_bot :: "config \<Rightarrow> string \<Rightarrow> bot" where
  "init_bot c smb =
     \<lparr> symbol = smb,
       positions = [],
       peak_portfolio_value = TOTAL_PORTFOLIO_CAPITAL_USD c,
       max_concurrent_trades = MAX_CONCURRENT_TRADES c,
       global_drawdown_limit = GLOBAL_DRAWDOWN_LIMIT_PERCENT c,
       stop_loss_pct = 0.02,
       take_profit_pct = 0.04,
       orders = [],
       events = [] \<rparr>"

datatype py_error = ZeroDivisionError | TypeError | KeyError

section \<open>Operations\<close>

subsection \<open>config.calculate_position_size\<close>

definition calculate_position_size :: "config \<Rightarrow> string \<Rightarrow> real \<Rightarrow> real \<Rightarrow> real" where
  "calculate_position_size c smb entry stop_loss =
     (if smb \<notin> set (TRADEABLE_ASSETS c) then 0
      else if entry \<le> 0 \<or> stop_loss \<le> 0 then 0
      else
        let risk_amount_usd = TOTAL_PORTFOLIO_CAPITAL_USD c * RISK_PER_TRADE_PERCENT c;
            sl_distance_usd_per_coin = \<bar>entry - stop_loss\<bar>
        in if sl_distance_usd_per_coin = 0 then 0
           else risk_amount_usd / sl_distance_usd_per_coin)"

subsection \<open>TradingBot.check_global_drawdown\<close>

text \<open>
  The division raises ZeroDivisionError when the peak is zero; the peak has been
  assigned by then, so the state is returned with the error too.
\<close>

definition check_global_drawdown :: "real \<Rightarrow> bot \<Rightarrow> (py_error + bool) \<times> bot" where
  "check_global_drawdown current_portfolio_value b =
     (let b1 = (if current_portfolio_value > peak_portfolio_value b
                then b\<lparr>peak_portfolio_value := current_portfolio_value\<rparr> else b)
      in if peak_portfolio_value b1 = 0 then (Inl ZeroDivisionError, b1)
         else
           let drawdown = (peak_portfolio_value b1 - current_portfolio_value)
                            / peak_portfolio_value b1
           in (Inr (drawdown \<ge> global_drawdown_limit b1), b1))"

subsection \<open>TradingBot.can_open_new_position\<close>

definition hedge_slots :: "symval \<Rightarrow> nat" where
  "hedge_slots sp =
     (if isinstance_dict sp then
        (if dict_get sp Long \<noteq> None then 1 else 0) + (if dict_get sp Short \<noteq> None then 1 else 0)
      else if sp \<noteq> PyNone then 1 else 0)"

definition active_count :: "bool \<Rightarrow> bot \<Rightarrow> nat" where
  "active_count hm b =
     (if hm then sum_list (map (\<lambda>kv. hedge_slots (snd kv)) (positions b))
      else length (filter (\<lambda>p. p \<noteq> PyNone) (map snd (positions b))))"

definition can_open_new_position :: "bool \<Rightarrow> bot \<Rightarrow> bool" where
  "can_open_new_position hm b =
     (if int (active_count hm b) \<ge> max_concurrent_trades b then False else True)"

subsection \<open>TradingBot.place_market_order\<close>

text \<open>
  The method catches every exception and returns the order or None. The request and
  its outcome are appended to \<open>orders\<close>.
\<close>

definition place_market_order ::
  "exchange \<Rightarrow> order_side \<Rightarrow> real \<Rightarrow> string \<Rightarrow> bot \<Rightarrow> bool \<times> bot" where
  "place_market_order ex sd amt idx b =
     (let req = \<lparr> order_side = sd, amount = amt, position_idx = idx \<rparr>;
          ok = ex (length (orders b)) req
      in (ok, b\<lparr>orders := orders b @ [(req, ok)]\<rparr>))"

subsection \<open>TradingBot.close_position\<close>

text \<open>
  \<open>smb\<close> is the argument \<^verbatim>\<open>symbol\<close> (the callers pass the symbol, or leave the
  default, which is the bot's own) and \<open>sd\<close> the argument \<^verbatim>\<open>side\<close>: None,
  \<^verbatim>\<open>'long'\<close> or \<^verbatim>\<open>'short'\<close>. The method reads \<^verbatim>\<open>hedge_mode\<close> from the
  configuration again. The \<^verbatim>\<open>try\<close> blocks guard \<^verbatim>\<open>position['side']\<close> and the order
  placement; the position read there always has its five keys and
  \<open>place_market_order\<close> does not raise, so the \<^verbatim>\<open>except\<close> branches have no case.
  In the one-way branch a value that is not a dict is None. With \<^verbatim>\<open>side\<close> None in
  hedge mode the method calls itself for each side that holds a position.
\<close>

function close_position ::
  "trading_config \<Rightarrow> exchange \<Rightarrow> string \<Rightarrow> side_key option \<Rightarrow> bot \<Rightarrow> bool \<times> bot" where
  "close_position tc ex smb sd b =
     (case map_of (positions b) smb of
        None \<Rightarrow> (False, b)
      | Some symbol_positions \<Rightarrow>
          if hedge_mode tc \<and> isinstance_dict symbol_positions then
            (case sd of
               None \<Rightarrow>
                 (case (if dict_get symbol_positions Long \<noteq> None
                        then close_position tc ex smb (Some Long) b else (False, b)) of
                    (c1, b1) \<Rightarrow>
                      (case (if dict_get symbol_positions Short \<noteq> None
                             then close_position tc ex smb (Some Short) b1 else (False, b1)) of
                         (c2, b2) \<Rightarrow> (c1 \<or> c2, b2)))
             | Some k \<Rightarrow>
                 (case dict_get symbol_positions k of
                    None \<Rightarrow> (False, b)
                  | Some position \<Rightarrow>
                      let close_side = (if side position = 1 then Sell else Buy);
                          idx = (if k = Long then ''1'' else ''2'')
                      in case place_market_order ex close_side (size_p position) idx b of
                           (order, b1) \<Rightarrow>
                             if order then
                               let d = dict_set symbol_positions k None;
                                   v = (if dict_get d Long = None \<and> dict_get d Short = None
                                        then PyNone else d)
                               in (True, b1\<lparr>positions := AList.update smb v (positions b1)\<rparr>)
                             else (False, b1)))
          else if isinstance_dict symbol_positions then
            (let converted = from_hedge_structure symbol_positions;
                 b0 = b\<lparr>positions := AList.update smb (stored converted) (positions b)\<rparr>
             in case converted of
                  None \<Rightarrow> (False, b0)
                | Some position \<Rightarrow>
                    let close_side = (if side position = 1 then Sell else Buy)
                    in case place_market_order ex close_side (size_p position) ''0'' b0 of
                         (order, b1) \<Rightarrow>
                           if order
                           then (True, b1\<lparr>positions := AList.update smb PyNone (positions b1)\<rparr>)
                           else (False, b1))
          else (False, b))"
  by pat_completeness auto
termination
  by (relation "measure (\<lambda>(tc, ex, smb, sd, b). case sd of None \<Rightarrow> 1 | Some k \<Rightarrow> 0)") auto

declare close_position.simps [simp del]

subsection \<open>TradingBot.execute_signal\<close>

text \<open>The branch \<^verbatim>\<open>signal == 0\<close>: close what the ledger holds for the bot's symbol.\<close>

definition exit_signal :: "trading_config \<Rightarrow> exchange \<Rightarrow> bot \<Rightarrow> bool \<times> bot" where
  "exit_signal tc ex b =
     (case map_of (positions b) (symbol b) of
        None \<Rightarrow> (False, b)
      | Some symbol_positions \<Rightarrow>
          if hedge_mode tc \<and> isinstance_dict symbol_positions then
            (case (if dict_get symbol_positions Long \<noteq> None
                   then close_position tc ex (symbol b) (Some Long) b else (False, b)) of
               (c1, b1) \<Rightarrow>
                 (case (if dict_get symbol_positions Short \<noteq> None
                        then close_position tc ex (symbol b) (Some Short) b1 else (False, b1)) of
                    (c2, b2) \<Rightarrow> (c1 \<or> c2, b2)))
          else if symbol_positions \<noteq> PyNone then close_position tc ex (symbol b) None b
          else (False, b))"

text \<open>
  From "Initialize position structure for this symbol if needed" to the end of the
  hedge-mode and one-way-mode blocks, in three parts. \<open>step\<close> says whether the method
  has returned there.
\<close>

datatype step = Returned bool | Continue

definition side_key_of :: "int \<Rightarrow> side_key" where
  "side_key_of signal = (if signal = 1 then Long else Short)"

text \<open>"Initialize position structure for this symbol if needed".\<close>

definition track_symbol :: "trading_config \<Rightarrow> bot \<Rightarrow> bot" where
  "track_symbol tc b =
     (if map_of (positions b) (symbol b) = None
      then b\<lparr>positions :=
             AList.update (symbol b)
               (if hedge_mode tc then PyDict None None None else PyNone) (positions b)\<rparr>
      else b)"

text \<open>
  The hedge-mode block. Its legacy migration handles a value that is neither a dict nor
  None; the ledger holds no such value, so a value that is not a dict is None there.
\<close>

definition hedge_block :: "int \<Rightarrow> symval \<Rightarrow> bot \<Rightarrow> step \<times> bot" where
  "hedge_block signal symbol_positions b =
     (if isinstance_dict symbol_positions then
        (if dict_get symbol_positions (side_key_of signal) \<noteq> None
         then (Returned False, b) else (Continue, b))
      else
        (Continue,
         b\<lparr>positions := AList.update (symbol b) (PyDict None None None) (positions b)\<rparr>))"

text \<open>The one-way-mode block.\<close>

definition one_way_block ::
  "trading_config \<Rightarrow> exchange \<Rightarrow> int \<Rightarrow> symval \<Rightarrow> bot \<Rightarrow> step \<times> bot" where
  "one_way_block tc ex signal symbol_positions b =
     (if symbol_positions \<noteq> PyNone then
        (let converted = (if isinstance_dict symbol_positions
                          then from_hedge_structure symbol_positions else None);
             b2 = (if isinstance_dict symbol_positions
                   then b\<lparr>positions :=
                          AList.update (symbol b) (stored converted) (positions b)\<rparr>
                   else b)
         in case converted of
              None \<Rightarrow> (Continue, b2)
            | Some existing_pos \<Rightarrow>
                if (signal = 1 \<and> side existing_pos = - 1) \<or> (signal = - 1 \<and> side existing_pos = 1)
                then
                  (case close_position tc ex (symbol b2) None b2 of
                     (was_closed, b3) \<Rightarrow>
                       if was_closed then (Continue, b3)
                       else (Continue,
                             b3\<lparr>positions := AList.update (symbol b3) PyNone (positions b3)\<rparr>))
                else if signal = side existing_pos then (Returned False, b2)
                else (Continue, b2))
      else (Continue, b))"

text \<open>
  The three parts in sequence; \<^verbatim>\<open>self.positions[self.symbol]\<close> is read after the
  symbol has been made a key.
\<close>

definition prepare_symbol :: "trading_config \<Rightarrow> exchange \<Rightarrow> int \<Rightarrow> bot \<Rightarrow> step \<times> bot" where
  "prepare_symbol tc ex signal b =
     (let b1 = track_symbol tc b;
          symbol_positions = (case map_of (positions b1) (symbol b1) of
                                Some v \<Rightarrow> v | None \<Rightarrow> PyNone)
      in if hedge_mode tc then hedge_block signal symbol_positions b1
         else one_way_block tc ex signal symbol_positions b1)"

text \<open>
  "Check if fixed BTC quantity is set in config" up to the risk-based size: the fixed
  quantity when it is set and positive, else the size computed from the stop-loss price;
  None where the method returns False because that size is not positive.
\<close>

definition determine_position_size ::
  "config \<Rightarrow> trading_config \<Rightarrow> int \<Rightarrow> real \<Rightarrow> bot \<Rightarrow> real option" where
  "determine_position_size c tc signal price b =
     (let risk_based =
            (let stop_loss = (if signal = 1 then price * (1 - stop_loss_pct b)
                              else price * (1 + stop_loss_pct b));
                 position_size = calculate_position_size c (symbol b) price stop_loss
             in if position_size \<le> 0 then None else Some position_size)
      in case quantity_btc tc of
           None \<Rightarrow> risk_based
         | Some fixed_quantity_btc \<Rightarrow>
             if fixed_quantity_btc > 0 then Some fixed_quantity_btc else risk_based)"

text \<open>The dict \<^verbatim>\<open>position_data\<close> built after a successful order.\<close>

definition position_data :: "int \<Rightarrow> real \<Rightarrow> real \<Rightarrow> bot \<Rightarrow> position" where
  "position_data signal position_size price b =
     \<lparr> side = signal, size_p = position_size, entry_price = price,
       stop_loss_price = (if signal = 1 then price * (1 - stop_loss_pct b)
                          else price * (1 + stop_loss_pct b)),
       take_profit_price = (if signal = 1 then price * (1 + take_profit_pct b)
                            else price * (1 - take_profit_pct b)) \<rparr>"

text \<open>The request of the entry order: side and \<^verbatim>\<open>positionIdx\<close>.\<close>

definition entry_request :: "trading_config \<Rightarrow> int \<Rightarrow> real \<Rightarrow> order_request" where
  "entry_request tc signal position_size =
     \<lparr> order_side = (if signal = 1 then Buy else Sell),
       amount = position_size,
       position_idx = (if hedge_mode tc then (if signal = 1 then ''1'' else ''2'') else ''0'') \<rparr>"

text \<open>
  From the check of \<open>can_open_new_position\<close> to the end of the method. A price of None
  (the caller passes what \<^verbatim>\<open>get_current_price\<close> returned) raises TypeError at the first
  multiplication, and \<^verbatim>\<open>self.positions[self.symbol]\<close> raises KeyError for a symbol
  that is not a key.
\<close>

definition open_position ::
  "config \<Rightarrow> trading_config \<Rightarrow> exchange \<Rightarrow> int \<Rightarrow> real option \<Rightarrow> bot \<Rightarrow> (py_error + bool) \<times> bot" where
  "open_position c tc ex signal current_price b =
     (if \<not> can_open_new_position (hedge_mode tc) b then (Inr False, b)
      else
        case current_price of
          None \<Rightarrow> (Inl TypeError, b)
        | Some price \<Rightarrow>
            (case determine_position_size c tc signal price b of
               None \<Rightarrow> (Inr False, b)
             | Some position_size \<Rightarrow>
                 let req = entry_request tc signal position_size
                 in case place_market_order ex (order_side req) (amount req) (position_idx req) b of
                      (order, b1) \<Rightarrow>
                        if order then
                          (let pd = position_data signal position_size price b1
                           in if hedge_mode tc then
                                (case map_of (positions b1) (symbol b1) of
                                   None \<Rightarrow> (Inl KeyError, b1)
                                 | Some cur \<Rightarrow>
                                     let d = (if \<not> isinstance_dict cur
                                              then PyDict None None None else cur)
                                     in (Inr True,
                                         b1\<lparr>positions :=
                                              AList.update (symbol b1)
                                                (dict_set d (side_key_of signal) (Some pd))
                                                (positions b1)\<rparr>))
                              else
                                (Inr True,
                                 b1\<lparr>positions :=
                                      AList.update (symbol b1) (stored (Some pd)) (positions b1)\<rparr>))
                        else (Inr False, b1)))"

text \<open>"Check global drawdown limit (kill switch)": made when a balance is passed.\<close>

definition kill_switch :: "real option \<Rightarrow> bot \<Rightarrow> (py_error + bool) \<times> bot" where
  "kill_switch balance b =
     (case balance of None \<Rightarrow> (Inr False, b) | Some v \<Rightarrow> check_global_drawdown v b)"

definition execute_signal ::
  "config \<Rightarrow> trading_config \<Rightarrow> exchange \<Rightarrow> int \<Rightarrow> real option \<Rightarrow> real option \<Rightarrow> bot
     \<Rightarrow> (py_error + bool) \<times> bot" where
  "execute_signal c tc ex signal current_price balance b =
     (if signal = 0 then (case exit_signal tc ex b of (r, b1) \<Rightarrow> (Inr r, b1))
      else
        case kill_switch balance b of
          (Inl e, b0) \<Rightarrow> (Inl e, b0)
        | (Inr halted, b0) \<Rightarrow>
            if halted then (Inr False, b0)
            else
              (case prepare_symbol tc ex signal b0 of
                 (Returned r, b1) \<Rightarrow> (Inr r, b1)
               | (Continue, b1) \<Rightarrow> open_position c tc ex signal current_price b1))"

subsection \<open>TradingBot.check_stop_loss_take_profit\<close>

definition stop_loss_hit :: "position \<Rightarrow> real \<Rightarrow> bool" where
  "stop_loss_hit p current_price =
     ((side p = 1 \<and> current_price \<le> stop_loss_price p)
      \<or> (side p = - 1 \<and> current_price \<ge> stop_loss_price p))"

definition take_profit_hit :: "position \<Rightarrow> real \<Rightarrow> bool" where
  "take_profit_hit p current_price =
     ((side p = 1 \<and> current_price \<ge> take_profit_price p)
      \<or> (side p = - 1 \<and> current_price \<le> take_profit_price p))"

text \<open>
  The two checks on one position. \<open>sd\<close> is the side passed to \<open>close_position\<close>
  and \<open>label\<close> the string appended to \<^verbatim>\<open>closed_symbols\<close> when the close succeeds.
\<close>

definition check_position ::
  "trading_config \<Rightarrow> exchange \<Rightarrow> real \<Rightarrow> string \<Rightarrow> side_key option \<Rightarrow> string \<Rightarrow> position
     \<Rightarrow> string list \<times> bot \<Rightarrow> string list \<times> bot" where
  "check_position tc ex current_price smb sd label p acc =
     (case acc of
        (closed_symbols, b) \<Rightarrow>
          if stop_loss_hit p current_price then
            (case close_position tc ex smb sd (b\<lparr>events := events b @ [StopLossTriggered smb sd]\<rparr>) of
               (ok, b1) \<Rightarrow> (if ok then closed_symbols @ [label] else closed_symbols, b1))
          else if take_profit_hit p current_price then
            (case close_position tc ex smb sd (b\<lparr>events := events b @ [TakeProfitTriggered smb sd]\<rparr>) of
               (ok, b1) \<Rightarrow> (if ok then closed_symbols @ [label] else closed_symbols, b1))
          else (closed_symbols, b))"

definition side_name :: "side_key \<Rightarrow> string" where
  "side_name k = (if k = Long then ''long'' else ''short'')"

text \<open>
  The body of the loop over \<^verbatim>\<open>self.positions.items()\<close>. In the one-way block the
  \<^verbatim>\<open>else\<close> of \<^verbatim>\<open>isinstance(symbol_positions, dict)\<close> is reached by no ledger value,
  since a value that is not None is a dict.
\<close>

definition check_symbol ::
  "trading_config \<Rightarrow> exchange \<Rightarrow> real \<Rightarrow> string \<times> symval
     \<Rightarrow> string list \<times> bot \<Rightarrow> string list \<times> bot" where
  "check_symbol tc ex current_price kv acc =
     (case kv of
        (smb, symbol_positions) \<Rightarrow>
          if symbol_positions = PyNone then acc
          else if hedge_mode tc \<and> isinstance_dict symbol_positions then
            fold (\<lambda>k a. case dict_get symbol_positions k of
                           None \<Rightarrow> a
                         | Some p \<Rightarrow>
                             check_position tc ex current_price smb (Some k)
                               (smb @ ''_'' @ side_name k) p a)
                 [Long, Short] acc
          else if isinstance_dict symbol_positions then
            (if dict_get symbol_positions Long \<noteq> None then
               (case dict_get symbol_positions Long of
                  Some p \<Rightarrow> check_position tc ex current_price smb None smb p acc
                | None \<Rightarrow> acc)
             else if dict_get symbol_positions Short \<noteq> None then
               (case dict_get symbol_positions Short of
                  Some p \<Rightarrow> check_position tc ex current_price smb None smb p acc
                | None \<Rightarrow> acc)
             else acc)
          else acc)"

definition check_stop_loss_take_profit ::
  "trading_config \<Rightarrow> exchange \<Rightarrow> real \<Rightarrow> bot \<Rightarrow> string list \<times> bot" where
  "check_stop_loss_take_profit tc ex current_price b =
     fold (check_symbol tc ex current_price) (positions b) ([], b)"

subsection \<open>Quantity rounding in TradingBot._place_order_direct_api\<close>

text \<open>Python's \<^verbatim>\<open>round(x)\<close>: the nearest integer, a tie going to the even one.\<close>

definition py_round :: "real \<Rightarrow> int" where
  "py_round x =
     (let f = \<lfloor>x\<rfloor>; d = x - of_int f
      in if d < 1 / 2 then f else if d > 1 / 2 then f + 1 else if even f then f else f + 1)"

text \<open>\<^verbatim>\<open>round(x, n)\<close>.\<close>

definition py_round_ndigits :: "real \<Rightarrow> nat \<Rightarrow> real" where
  "py_round_ndigits x n = of_int (py_round (x * 10 ^ n)) / 10 ^ n"

text \<open>
  The \<^verbatim>\<open>lotSizeFilter\<close> of the instrument info, its two values already read as
  numbers; a key that is absent takes the default \<^verbatim>\<open>'0.001'\<close>. Without instrument info
  both take the default.
\<close>

record lot_size_filter =
  qtyStep :: "real option"
  minOrderQty :: "real option"

definition qty_step_of :: "lot_size_filter option \<Rightarrow> real" where
  "qty_step_of instrument_info =
     (case instrument_info of
        None \<Rightarrow> 0.001
      | Some f \<Rightarrow> (case qtyStep f of None \<Rightarrow> 0.001 | Some q \<Rightarrow> q))"

definition min_qty_of :: "lot_size_filter option \<Rightarrow> real" where
  "min_qty_of instrument_info =
     (case instrument_info of
        None \<Rightarrow> 0.001
      | Some f \<Rightarrow> (case minOrderQty f of None \<Rightarrow> 0.001 | Some q \<Rightarrow> q))"

definition btc_amount_rounded :: "real \<Rightarrow> real \<Rightarrow> real \<Rightarrow> real" where
  "btc_amount_rounded amt qty_step min_qty =
     (let r = (if qty_step > 0 then of_int (py_round (amt / qty_step)) * qty_step
               else py_round_ndigits amt 8)
      in if r < min_qty then min_qty else r)"

definition decimal_places :: "real \<Rightarrow> nat" where
  "decimal_places qty_step =
     (if qty_step \<ge> 1 then 0
      else if qty_step \<ge> 0.1 then 1
      else if qty_step \<ge> 0.01 then 2
      else if qty_step \<ge> 0.001 then 3
      else 8)"

definition digit_char :: "nat \<Rightarrow> char" where
  "digit_char n = ''0123456789'' ! (n mod 10)"

text \<open>The decimal digits of a natural number, \<open>fuel\<close> bounding their number.\<close>

fun digits_fuel :: "nat \<Rightarrow> nat \<Rightarrow> string" where
  "digits_fuel 0 n = [digit_char n]"
| "digits_fuel (Suc fuel) n =
     (if n < 10 then [digit_char n] else digits_fuel fuel (n div 10) @ [digit_char n])"

definition digits :: "nat \<Rightarrow> string" where
  "digits n = digits_fuel n n"

text \<open>
  \<^verbatim>\<open>f"{x:.{d}f}"\<close>: \<open>x\<close> rounded to \<open>d\<close> decimal places, written with exactly
  \<open>d\<close> digits after the point and with no point when \<open>d\<close> is 0.
\<close>

definition format_fixed :: "real \<Rightarrow> nat \<Rightarrow> string" where
  "format_fixed x d =
     (let n = nat (py_round (\<bar>x\<bar> * 10 ^ d));
          frac = digits (n mod 10 ^ d)
      in (if x < 0 then ''-'' else []) @ digits (n div 10 ^ d)
         @ (if d = 0 then [] else ''.'' @ replicate (d - length frac) (CHR ''0'') @ frac))"

text \<open>\<^verbatim>\<open>s.rstrip(c)\<close> for a single character \<open>c\<close>.\<close>

definition rstrip :: "char \<Rightarrow> string \<Rightarrow> string" where
  "rstrip c s = rev (dropWhile (\<lambda>x. x = c) (rev s))"

text \<open>The string sent as \<^verbatim>\<open>qty\<close>.\<close>

definition quantity :: "real \<Rightarrow> lot_size_filter option \<Rightarrow> string" where
  "quantity amt instrument_info =
     (let qty_step = qty_step_of instrument_info;
          min_qty = min_qty_of instrument_info
      in rstrip (CHR ''.'')
           (rstrip (CHR ''0'')
              (format_fixed (btc_amount_rounded amt qty_step min_qty) (decimal_places qty_step))))"

subsection \<open>LiveTradingBot.get_current_signal and the main loop\<close>

text \<open>
  A value of the \<^verbatim>\<open>Signal\<close> column: NaN, an infinity, or a number. What the strategy
  call does: it raises, or it returns a frame that is None, has no \<^verbatim>\<open>Signal\<close> column,
  or has one.
\<close>

datatype cell = NaN | Infinite | Num real

datatype strategy_df = NoFrame | Frame "cell list option"

datatype strategy_outcome = Raises | Returns strategy_df

text \<open>\<^verbatim>\<open>int(x)\<close> truncates towards zero.\<close>

definition py_int :: "real \<Rightarrow> int" where
  "py_int x = (if x \<ge> 0 then \<lfloor>x\<rfloor> else \<lceil>x\<rceil>)"

text \<open>
  Every exception is caught and gives None: the strategy's own, the IndexError of
  \<^verbatim>\<open>iloc[-1]\<close> on an empty column, the OverflowError of \<^verbatim>\<open>int\<close> on an infinity.
\<close>

definition get_current_signal :: "strategy_outcome \<Rightarrow> int option" where
  "get_current_signal out =
     (case out of
        Raises \<Rightarrow> None
      | Returns NoFrame \<Rightarrow> None
      | Returns (Frame None) \<Rightarrow> None
      | Returns (Frame (Some col)) \<Rightarrow>
          if col = [] then None
          else (case last col of
                  NaN \<Rightarrow> Some 0
                | Infinite \<Rightarrow> None
                | Num x \<Rightarrow> Some (py_int x)))"

text \<open>\<^verbatim>\<open>if x:\<close> on a float or None.\<close>

definition truthy :: "real option \<Rightarrow> bool" where
  "truthy x = (case x of None \<Rightarrow> False | Some v \<Rightarrow> v \<noteq> 0)"

text \<open>
  One pass of the \<^verbatim>\<open>while True\<close> loop of \<^verbatim>\<open>LiveTradingBot.run\<close>, from step 1
  (portfolio value and drawdown) to step 8 (execute the signal), on what the pass
  fetched: the portfolio value, whether market data was loaded, the strategy's outcome and
  the current price. The reload of the configuration file before step 1 and the waiting
  after step 8 are not modelled.
\<close>

datatype pass = DrawdownHalt | NoData | NoSignal | Executed bool

text \<open>Step 1: the drawdown check, made when the portfolio value is truthy.\<close>

definition drawdown_step :: "real option \<Rightarrow> bot \<Rightarrow> (py_error + bool) \<times> bot" where
  "drawdown_step portfolio_value b =
     (if truthy portfolio_value
      then (case portfolio_value of
              Some v \<Rightarrow> check_global_drawdown v b | None \<Rightarrow> (Inr False, b))
      else (Inr False, b))"

text \<open>The check of stop loss and take profit, made when the current price is truthy.\<close>

definition exits_step ::
  "trading_config \<Rightarrow> exchange \<Rightarrow> real option \<Rightarrow> bot \<Rightarrow> string list \<times> bot" where
  "exits_step tc ex current_price b =
     (if truthy current_price
      then (case current_price of
              Some price \<Rightarrow> check_stop_loss_take_profit tc ex price b | None \<Rightarrow> ([], b))
      else ([], b))"

text \<open>
  The third argument of the call of \<open>execute_signal\<close>: the portfolio value when it is
  truthy; otherwise None for the exit signal and the configured capital for an entry
  signal.
\<close>

definition balance_passed :: "config \<Rightarrow> int \<Rightarrow> real option \<Rightarrow> real option" where
  "balance_passed c signal portfolio_value =
     (if truthy portfolio_value then portfolio_value
      else if signal = 0 then None
      else Some (TOTAL_PORTFOLIO_CAPITAL_USD c))"

definition run_pass ::
  "config \<Rightarrow> trading_config \<Rightarrow> exchange \<Rightarrow> real option \<Rightarrow> bool \<Rightarrow> strategy_outcome \<Rightarrow> real option
     \<Rightarrow> bot \<Rightarrow> (py_error + pass) \<times> bot" where
  "run_pass c tc ex portfolio_value data_loaded out current_price b =
     (case drawdown_step portfolio_value b of
        (Inl e, b1) \<Rightarrow> (Inl e, b1)
      | (Inr halted, b1) \<Rightarrow>
          if halted then (Inr DrawdownHalt, b1)
          else if \<not> data_loaded then (Inr NoData, b1)
          else
            (case get_current_signal out of
               None \<Rightarrow> (Inr NoSignal, b1)
             | Some signal \<Rightarrow>
                 (case exits_step tc ex current_price b1 of
                    (closed_symbols, b2) \<Rightarrow>
                      (case execute_signal c tc ex signal current_price
                              (balance_passed c signal portfolio_value) b2 of
                         (Inl e, b3) \<Rightarrow> (Inl e, b3)
                       | (Inr r, b3) \<Rightarrow> (Inr (Executed r), b3)))))"

subsection \<open>Reading the ledger\<close>

text \<open>The position records that a ledger value holds, and those of the whole ledger.\<close>

fun held :: "symval \<Rightarrow> position set" where
  "held PyNone = {}"
| "held (PyDict ow l s) = set_option ow \<union> set_option l \<union> set_option s"

definition ledger_positions :: "bot \<Rightarrow> position set" where
  "ledger_positions b = (\<Union>kv \<in> set (positions b). held (snd kv))"

text \<open>
  A request that closes the position \<open>p\<close>: the opposite market side, the full stored
  size.
\<close>

definition is_close_of :: "order_request \<Rightarrow> position \<Rightarrow> bool" where
  "is_close_of req p =
     (order_side req = (if side p = 1 then Sell else Buy) \<and> amount req = size_p p)"

text \<open>
  From \<open>b\<close> to \<open>b'\<close> nothing was opened: the ledger of \<open>b'\<close> holds no position
  record that the ledger of \<open>b\<close> did not hold, the orders of \<open>b\<close> are still the first
  orders of \<open>b'\<close>, and every request sent since closes a position that \<open>b\<close> held.
\<close>

definition only_closes :: "bot \<Rightarrow> bot \<Rightarrow> bool" where
  "only_closes b b' =
     (ledger_positions b' \<subseteq> ledger_positions b
      \<and> take (length (orders b)) (orders b') = orders b
      \<and> (\<forall>ro \<in> set (drop (length (orders b)) (orders b')).
            \<exists>p \<in> ledger_positions b. is_close_of (fst ro) p))"

subsection \<open>Configurations and states used as examples\<close>

definition one_way :: trading_config where
  "one_way = \<lparr> hedge_mode = False, quantity_btc = None \<rparr>"

definition hedge :: trading_config where
  "hedge = \<lparr> hedge_mode = True, quantity_btc = None \<rparr>"

definition accept_all :: exchange where
  "accept_all = (\<lambda>n r. True)"

definition reject_all :: exchange where
  "reject_all = (\<lambda>n r. False)"

text \<open>The bot as constructed for BTC/USDT from config.py.\<close>

definition btc_bot :: bot where
  "btc_bot = init_bot config_py ''BTC/USDT''"

text \<open>The same bot when the configured capital is 0, so that the peak starts at 0.\<close>

definition zero_peak_bot :: bot where
  "zero_peak_bot = init_bot (config_py\<lparr>TOTAL_PORTFOLIO_CAPITAL_USD := 0\<rparr>) ''BTC/USDT''"

text \<open>A long entered at 100 with the default 2 and 4 per cent, and a short likewise.\<close>

definition long_100 :: position where
  "long_100 = \<lparr> side = 1, size_p = 500, entry_price = 100, stop_loss_price = 98,
                take_profit_price = 104 \<rparr>"

definition short_100 :: position where
  "short_100 = \<lparr> side = - 1, size_p = 500, entry_price = 100, stop_loss_price = 102,
                 take_profit_price = 96 \<rparr>"

text \<open>The ledger after a long entry in one-way mode, and after one in hedge mode.\<close>

definition btc_long_one_way :: bot where
  "btc_long_one_way = btc_bot\<lparr>positions := [(''BTC/USDT'', PyDict (Some long_100) None None)]\<rparr>"

definition btc_long_hedge :: bot where
  "btc_long_hedge = btc_bot\<lparr>positions := [(''BTC/USDT'', PyDict None (Some long_100) None)]\<rparr>"


text \<open>
  A limit of two concurrent trades with long positions on two other symbols, and the same
  ledger once the first of them is closed.
\<close>

definition two_open :: bot where
  "two_open = btc_bot\<lparr>max_concurrent_trades := 2,
       positions := [(''ETH/USDT'', PyDict None (Some long_100) None),
                     (''SOL/USDT'', PyDict None (Some long_100) None)]\<rparr>"

definition one_open :: bot where
  "one_open = btc_bot\<lparr>max_concurrent_trades := 2,
       positions := [(''ETH/USDT'', PyNone),
                     (''SOL/USDT'', PyDict None (Some long_100) None)]\<rparr>"

text \<open>
  The one-way ledger above under a limit of one concurrent trade, and the same with a
  long position recorded for a second symbol.
\<close>

definition btc_long_limit_one :: bot where
  "btc_long_limit_one = btc_long_one_way\<lparr>max_concurrent_trades := 1\<rparr>"

definition eth_btc_long_limit_one :: bot where
  "eth_btc_long_limit_one =
     btc_bot\<lparr>max_concurrent_trades := 1,
       positions := [(''ETH/USDT'', PyDict (Some long_100) None None),
                     (''BTC/USDT'', PyDict (Some long_100) None None)]\<rparr>"

section \<open>Properties\<close>

subsection \<open>Position sizing\<close>

text \<open>
  Claim C2. \<open>calculate_position_size\<close> returns 0 when the entry price or the stop-loss
  price is not positive, when the two are equal, or when the symbol is not in
  \<open>TRADEABLE_ASSETS\<close>; otherwise it returns the capital times the risk fraction,
  divided by the distance between entry and stop-loss. The result is a function of these
  inputs and of the configured capital and risk fraction only.
\<close>

theorem calculate_position_size_spec:
  "calculate_position_size c smb entry stop_loss =
     (if entry \<le> 0 \<or> stop_loss \<le> 0 \<or> entry = stop_loss \<or> smb \<notin> set (TRADEABLE_ASSETS c) then 0
      else TOTAL_PORTFOLIO_CAPITAL_USD c * RISK_PER_TRADE_PERCENT c / \<bar>entry - stop_loss\<bar>)"
  by (simp add: calculate_position_size_def Let_def)

text \<open>With the values of config.py: entry 100 and stop 98 give 500 units.\<close>

theorem calculate_position_size_spec_witness:
  "calculate_position_size config_py ''BTC/USDT'' 100 98 = 500
   \<and> calculate_position_size config_py ''BTC/USDT'' 100 100 = 0
   \<and> calculate_position_size config_py ''ETH/USDT'' 100 98 = 0
   \<and> calculate_position_size config_py ''BTC/USDT'' 0 98 = 0"
  using calculate_position_size_spec [of config_py "''BTC/USDT''" 100 98]
    calculate_position_size_spec [of config_py "''BTC/USDT''" 100 100]
    calculate_position_size_spec [of config_py "''ETH/USDT''" 100 98]
    calculate_position_size_spec [of config_py "''BTC/USDT''" 0 98]
  by (simp add: config_py_def)

subsection \<open>The drawdown gate\<close>

text \<open>
  The peak starts at the configured capital and is only ever raised, so it stays
  positive when the capital is.
\<close>

lemma peak_positive_init:
  "0 < TOTAL_PORTFOLIO_CAPITAL_USD c \<Longrightarrow> 0 < peak_portfolio_value (init_bot c smb)"
  by (simp add: init_bot_def)

lemma peak_positive_check:
  "0 < peak_portfolio_value b \<Longrightarrow> 0 < peak_portfolio_value (snd (check_global_drawdown v b))"
  by (simp add: check_global_drawdown_def Let_def)

lemma check_global_drawdown_pos:
  assumes "0 < peak_portfolio_value b"
  shows "check_global_drawdown v b =
           (Inr ((max (peak_portfolio_value b) v - v) / max (peak_portfolio_value b) v
                   \<ge> global_drawdown_limit b),
            b\<lparr>peak_portfolio_value := max (peak_portfolio_value b) v\<rparr>)"
  using assms by (simp add: check_global_drawdown_def Let_def max_def)

text \<open>
  Claim C3. With a positive peak, a call of \<open>check_global_drawdown\<close> on the portfolio
  value \<open>v\<close> sets the peak to the maximum of the old peak and \<open>v\<close>, computes the
  drawdown as (peak - v) / peak from the new peak, and answers True exactly when
  the drawdown is at least \<open>global_drawdown_limit\<close>. The answer depends on the peak, the
  value and the limit alone: there is no latch. \<open>execute_signal\<close> with a signal other
  than 0 and a known balance returns False when the check answers True, leaving positions
  and orders as they were (only the peak is assigned); when the check answers False it
  goes on exactly as a call without balance does from the state with the new peak.
\<close>

theorem drawdown_gate:
  assumes "0 < peak_portfolio_value b"
  shows "check_global_drawdown v b =
           (Inr ((max (peak_portfolio_value b) v - v) / max (peak_portfolio_value b) v
                   \<ge> global_drawdown_limit b),
            b\<lparr>peak_portfolio_value := max (peak_portfolio_value b) v\<rparr>)
         \<and> (signal \<noteq> 0 \<longrightarrow>
              execute_signal c tc ex signal price (Some v) b =
                (if (max (peak_portfolio_value b) v - v) / max (peak_portfolio_value b) v
                      \<ge> global_drawdown_limit b
                 then (Inr False, b\<lparr>peak_portfolio_value := max (peak_portfolio_value b) v\<rparr>)
                 else execute_signal c tc ex signal price None
                        (b\<lparr>peak_portfolio_value := max (peak_portfolio_value b) v\<rparr>)))"
  using check_global_drawdown_pos [OF assms, of v]
  by (simp add: execute_signal_def kill_switch_def)

text \<open>
  Peak 100000 and limit 0.20: 79999 and 80000 halt, 80001 does not, also right after a
  halt; a halted entry signal leaves the ledger with its long position.
\<close>

theorem drawdown_gate_witness:
  "0 < peak_portfolio_value btc_long_hedge
   \<and> check_global_drawdown 79999 btc_long_hedge = (Inr True, btc_long_hedge)
   \<and> check_global_drawdown 80000 btc_long_hedge = (Inr True, btc_long_hedge)
   \<and> check_global_drawdown 80001 btc_long_hedge = (Inr False, btc_long_hedge)
   \<and> check_global_drawdown 80001 (snd (check_global_drawdown 79999 btc_long_hedge))
       = (Inr False, btc_long_hedge)
   \<and> execute_signal config_py hedge accept_all (- 1) (Some 100) (Some 79999) btc_long_hedge
       = (Inr False, btc_long_hedge)"
proof -
  have h: "0 < peak_portfolio_value btc_long_hedge"
    by (simp add: btc_long_hedge_def btc_bot_def init_bot_def config_py_def)
  have p: "peak_portfolio_value btc_long_hedge = 100000"
    and l: "global_drawdown_limit btc_long_hedge = 1 / 5"
    by (simp_all add: btc_long_hedge_def btc_bot_def init_bot_def config_py_def)
  have e: "btc_long_hedge\<lparr>peak_portfolio_value := 100000\<rparr> = btc_long_hedge"
    using p by simp
  show ?thesis
    using h drawdown_gate [OF h, of 79999 "- 1" config_py hedge accept_all "Some 100"]
      drawdown_gate [OF h, of 80000 1 config_py hedge accept_all None]
      drawdown_gate [OF h, of 80001 1 config_py hedge accept_all None]
    by (simp add: p l e)
qed

text \<open>
  Claim C8, as the code has it. There is no guard against a zero peak. With a peak of 0
  and a positive portfolio value the peak is first raised to that value, so the drawdown
  is 0 and, the limit being positive, the check answers False; with a portfolio value
  that is not positive the peak stays 0 and the division raises ZeroDivisionError.
\<close>

theorem zero_peak_drawdown:
  assumes "peak_portfolio_value b = 0"
  shows "(0 < v \<longrightarrow> 0 < global_drawdown_limit b \<longrightarrow>
            check_global_drawdown v b = (Inr False, b\<lparr>peak_portfolio_value := v\<rparr>))
         \<and> (v \<le> 0 \<longrightarrow> check_global_drawdown v b = (Inl ZeroDivisionError, b))"
  using assms by (simp add: check_global_drawdown_def Let_def)

theorem zero_peak_drawdown_witness:
  "peak_portfolio_value zero_peak_bot = 0
   \<and> check_global_drawdown 50000 zero_peak_bot
       = (Inr False, zero_peak_bot\<lparr>peak_portfolio_value := 50000\<rparr>)
   \<and> check_global_drawdown (- 1) zero_peak_bot = (Inl ZeroDivisionError, zero_peak_bot)"
proof -
  have p: "peak_portfolio_value zero_peak_bot = 0"
    by (simp add: zero_peak_bot_def init_bot_def)
  have l: "0 < global_drawdown_limit zero_peak_bot"
    by (simp add: zero_peak_bot_def init_bot_def config_py_def)
  show ?thesis
    using p l zero_peak_drawdown [OF p, of 50000] zero_peak_drawdown [OF p, of "- 1"] by simp
qed

text \<open>
  The claim as stated fails: with a peak of 0 and a portfolio value of 0 the check does
  not answer False, it raises.
\<close>

theorem zero_peak_counterexample:
  "check_global_drawdown 0 zero_peak_bot = (Inl ZeroDivisionError, zero_peak_bot)"
  by (simp add: check_global_drawdown_def zero_peak_bot_def init_bot_def config_py_def)

subsection \<open>What close_position does, branch by branch\<close>

lemma dict_get_Some_dict: "dict_get sp k = Some p \<Longrightarrow> isinstance_dict sp"
  by (cases sp) simp_all

lemma not_dict_iff: "\<not> isinstance_dict sp \<longleftrightarrow> sp = PyNone"
  by (cases sp) simp_all

lemma close_position_absent:
  "map_of (positions b) smb = None \<Longrightarrow> close_position tc ex smb sd b = (False, b)"
  by (subst close_position.simps) simp

lemma close_position_none_value:
  "map_of (positions b) smb = Some PyNone \<Longrightarrow> close_position tc ex smb sd b = (False, b)"
  by (subst close_position.simps) simp

lemma close_position_hedge_empty:
  assumes "hedge_mode tc" "map_of (positions b) smb = Some sp" "isinstance_dict sp"
    "dict_get sp k = None"
  shows "close_position tc ex smb (Some k) b = (False, b)"
  by (subst close_position.simps) (simp add: assms)

lemma close_position_hedge_side:
  assumes "hedge_mode tc" "map_of (positions b) smb = Some sp" "dict_get sp k = Some p"
  shows "close_position tc ex smb (Some k) b =
     (let req = \<lparr> order_side = (if side p = 1 then Sell else Buy), amount = size_p p,
                  position_idx = (if k = Long then ''1'' else ''2'') \<rparr>;
          d = dict_set sp k None
      in if ex (length (orders b)) req
         then (True,
               b\<lparr>orders := orders b @ [(req, True)],
                 positions := AList.update smb
                    (if dict_get d Long = None \<and> dict_get d Short = None then PyNone else d)
                    (positions b)\<rparr>)
         else (False, b\<lparr>orders := orders b @ [(req, False)]\<rparr>))"
  using dict_get_Some_dict [OF assms(3)]
  by (subst close_position.simps) (simp add: assms place_market_order_def Let_def)

lemma close_position_one_way_dict:
  assumes "\<not> hedge_mode tc" "map_of (positions b) smb = Some sp" "isinstance_dict sp"
  shows "close_position tc ex smb sd b =
     (case from_hedge_structure sp of
        None \<Rightarrow> (False, b\<lparr>positions := AList.update smb PyNone (positions b)\<rparr>)
      | Some p \<Rightarrow>
          let req = \<lparr> order_side = (if side p = 1 then Sell else Buy), amount = size_p p,
                      position_idx = ''0'' \<rparr>
          in if ex (length (orders b)) req
             then (True,
                   b\<lparr>orders := orders b @ [(req, True)],
                     positions := AList.update smb PyNone (positions b)\<rparr>)
             else (False,
                   b\<lparr>orders := orders b @ [(req, False)],
                     positions := AList.update smb (stored (Some p)) (positions b)\<rparr>))"
  by (subst close_position.simps)
     (simp add: assms place_market_order_def Let_def split: option.splits)

lemma close_position_both:
  assumes "hedge_mode tc" "map_of (positions b) smb = Some sp" "isinstance_dict sp"
  shows "close_position tc ex smb None b =
     (case (if dict_get sp Long \<noteq> None
            then close_position tc ex smb (Some Long) b else (False, b)) of
        (c1, b1) \<Rightarrow>
          (case (if dict_get sp Short \<noteq> None
                 then close_position tc ex smb (Some Short) b1 else (False, b1)) of
             (c2, b2) \<Rightarrow> (c1 \<or> c2, b2)))"
  by (subst close_position.simps) (simp add: assms)

lemma held_in_ledger:
  "map_of (positions b) k = Some v \<Longrightarrow> held v \<subseteq> ledger_positions b"
  by (force simp: ledger_positions_def dest: map_of_SomeD)


lemma held_update_present:
  "map_of ps k = Some w \<Longrightarrow> held v \<subseteq> held w \<Longrightarrow>
   (\<Union>kv \<in> set (AList.update k v ps). held (snd kv)) \<subseteq> (\<Union>kv \<in> set ps. held (snd kv))"
  by (induction ps) (auto split: if_splits)

lemma ledger_update_present:
  "map_of (positions b) k = Some w \<Longrightarrow> held v \<subseteq> held w \<Longrightarrow> positions b' = AList.update k v (positions b) \<Longrightarrow>
   ledger_positions b' \<subseteq> ledger_positions b"
  using held_update_present [of "positions b" k w v] by (simp add: ledger_positions_def)

lemma held_stored_from_hedge: "held (stored (from_hedge_structure sp)) \<subseteq> held sp"
  by (cases sp) (auto simp: from_hedge_structure_def)

lemma from_hedge_held: "from_hedge_structure sp = Some p \<Longrightarrow> p \<in> held sp"
  by (cases sp) (auto simp: from_hedge_structure_def split: if_splits)

lemma dict_get_held: "dict_get sp k = Some p \<Longrightarrow> p \<in> held sp"
  by (cases sp; cases k) auto

lemma held_dict_set_None: "held (dict_set sp k None) \<subseteq> held sp"
  by (cases sp; cases k) auto

lemma only_closes_refl: "only_closes b b"
  by (simp add: only_closes_def)

lemma only_closesI:
  assumes "ledger_positions b' \<subseteq> ledger_positions b" "orders b' = orders b @ new"
    "\<And>ro. ro \<in> set new \<Longrightarrow> \<exists>p \<in> ledger_positions b. is_close_of (fst ro) p"
  shows "only_closes b b'"
  using assms by (simp add: only_closes_def)

lemma only_closesD:
  assumes "only_closes b b'"
  shows "ledger_positions b' \<subseteq> ledger_positions b"
    and "\<exists>new. orders b' = orders b @ new
           \<and> (\<forall>ro \<in> set new. \<exists>p \<in> ledger_positions b. is_close_of (fst ro) p)"
proof -
  show "ledger_positions b' \<subseteq> ledger_positions b"
    using assms by (simp add: only_closes_def)
  have "orders b' = orders b @ drop (length (orders b)) (orders b')"
    using assms by (metis only_closes_def append_take_drop_id)
  then show "\<exists>new. orders b' = orders b @ new
           \<and> (\<forall>ro \<in> set new. \<exists>p \<in> ledger_positions b. is_close_of (fst ro) p)"
    using assms unfolding only_closes_def by blast
qed

lemma only_closes_trans:
  assumes "only_closes b b1" "only_closes b1 b2"
  shows "only_closes b b2"
proof -
  obtain n1 where n1: "orders b1 = orders b @ n1"
    "\<forall>ro \<in> set n1. \<exists>p \<in> ledger_positions b. is_close_of (fst ro) p"
    using only_closesD(2) [OF assms(1)] by blast
  obtain n2 where n2: "orders b2 = orders b1 @ n2"
    "\<forall>ro \<in> set n2. \<exists>p \<in> ledger_positions b1. is_close_of (fst ro) p"
    using only_closesD(2) [OF assms(2)] by blast
  have s1: "ledger_positions b1 \<subseteq> ledger_positions b"
    using only_closesD(1) [OF assms(1)] .
  have s2: "ledger_positions b2 \<subseteq> ledger_positions b1"
    using only_closesD(1) [OF assms(2)] .
  show ?thesis
  proof (rule only_closesI [where new = "n1 @ n2"])
    show "ledger_positions b2 \<subseteq> ledger_positions b" using s1 s2 by blast
    show "orders b2 = orders b @ n1 @ n2" using n1 n2 by simp
    fix ro assume "ro \<in> set (n1 @ n2)"
    then consider "ro \<in> set n1" | "ro \<in> set n2" by auto
    then show "\<exists>p \<in> ledger_positions b. is_close_of (fst ro) p"
    proof cases
      case 1
      then show ?thesis using n1(2) by blast
    next
      case 2
      then obtain p where "p \<in> ledger_positions b1" "is_close_of (fst ro) p"
        using n2(2) by blast
      then show ?thesis using s1 by blast
    qed
  qed
qed

lemma close_position_side_only_closes:
  "only_closes b (snd (close_position tc ex smb (Some k) b))"
proof (cases "map_of (positions b) smb")
  case None
  then show ?thesis by (simp add: close_position_absent only_closes_refl)
next
  case (Some sp)
  show ?thesis
  proof (cases "isinstance_dict sp")
    case False
    then have "sp = PyNone" by (simp add: not_dict_iff)
    then show ?thesis using Some by (simp add: close_position_none_value only_closes_refl)
  next
    case dict: True
    show ?thesis
    proof (cases "hedge_mode tc")
      case hm: True
      show ?thesis
      proof (cases "dict_get sp k")
        case None
        then show ?thesis
          using hm Some dict by (simp add: close_position_hedge_empty only_closes_refl)
      next
        case (Some p)
        have p: "p \<in> ledger_positions b"
          using dict_get_held [OF Some] held_in_ledger [OF \<open>map_of (positions b) smb = Some sp\<close>]
          by blast
        define v where "v = (if dict_get (dict_set sp k None) Long = None
                          \<and> dict_get (dict_set sp k None) Short = None
                         then PyNone else dict_set sp k None)"
        have sub: "held v \<subseteq> held sp"
          using held_dict_set_None [of sp k] by (auto simp: v_def)
        have led: "ledger_positions (b\<lparr>orders := os, positions := AList.update smb v (positions b)\<rparr>)
                \<subseteq> ledger_positions b" for os
          by (rule ledger_update_present [OF \<open>map_of (positions b) smb = Some sp\<close> sub]) simp
        have led': "ledger_positions (b\<lparr>orders := os\<rparr>) = ledger_positions b" for os
          by (simp add: ledger_positions_def)
        show ?thesis
          unfolding close_position_hedge_side [OF hm \<open>map_of (positions b) smb = Some sp\<close> Some]
          using p led led'
          by (auto simp: only_closes_def Let_def is_close_of_def v_def [symmetric]
                   simp del: dict_get.simps dict_set.simps)
      qed
    next
      case ow: False
      show ?thesis
      proof (cases "from_hedge_structure sp")
        case None
        have "ledger_positions (b\<lparr>positions := AList.update smb PyNone (positions b)\<rparr>)
                \<subseteq> ledger_positions b"
          by (rule ledger_update_present [OF Some, of PyNone]) simp_all
        then show ?thesis
          unfolding close_position_one_way_dict [OF ow \<open>map_of (positions b) smb = Some sp\<close> dict]
          using None by (simp add: only_closes_def)
      next
        case (Some p)
        have p: "p \<in> ledger_positions b"
          using from_hedge_held [OF Some] held_in_ledger [OF \<open>map_of (positions b) smb = Some sp\<close>]
          by blast
        have s1: "ledger_positions (b\<lparr>orders := os, positions := AList.update smb PyNone (positions b)\<rparr>)
                \<subseteq> ledger_positions b" for os
          by (rule ledger_update_present [OF \<open>map_of (positions b) smb = Some sp\<close>, of PyNone]) simp_all
        have s2: "ledger_positions (b\<lparr>orders := os, positions := AList.update smb (stored (Some p)) (positions b)\<rparr>)
                \<subseteq> ledger_positions b" for os
          using held_stored_from_hedge [of sp] Some
          by (intro ledger_update_present [OF \<open>map_of (positions b) smb = Some sp\<close>, of "stored (Some p)"]) simp_all
        show ?thesis
          unfolding close_position_one_way_dict [OF ow \<open>map_of (positions b) smb = Some sp\<close> dict]
          using Some p s1 s2
          by (auto simp: only_closes_def Let_def is_close_of_def)
      qed
    qed
  qed
qed

lemma close_position_only_closes:
  "only_closes b (snd (close_position tc ex smb sd b))"
proof (cases sd)
  case (Some k)
  then show ?thesis by (simp add: close_position_side_only_closes)
next
  case None
  show ?thesis
  proof (cases "map_of (positions b) smb")
    case nl: None
    then show ?thesis by (simp add: close_position_absent only_closes_refl)
  next
    case (Some sp)
    show ?thesis
    proof (cases "hedge_mode tc \<and> isinstance_dict sp")
      case True
      define r1 where "r1 = (if dict_get sp Long \<noteq> None
            then close_position tc ex smb (Some Long) b else (False, b))"
      define r2 where "r2 = (if dict_get sp Short \<noteq> None
            then close_position tc ex smb (Some Short) (snd r1) else (False, snd r1))"
      have 1: "only_closes b (snd r1)"
        by (simp add: r1_def close_position_side_only_closes only_closes_refl)
      have 2: "only_closes (snd r1) (snd r2)"
        by (simp add: r2_def close_position_side_only_closes only_closes_refl)
      have "close_position tc ex smb None b = (fst r1 \<or> fst r2, snd r2)"
        using True Some
        by (simp add: close_position_both r1_def r2_def split: prod.splits)
      then show ?thesis
        using only_closes_trans [OF 1 2] None by simp
    next
      case False
      show ?thesis
      proof (cases "isinstance_dict sp")
        case dict: True
        then have ow: "\<not> hedge_mode tc" using False by simp
        have "close_position tc ex smb None b = close_position tc ex smb (Some Long) b"
          by (simp add: close_position_one_way_dict [OF ow Some dict])
        then show ?thesis using None by (simp add: close_position_side_only_closes)
      next
        case nd: False
        then have "sp = PyNone" by (simp add: not_dict_iff)
        then show ?thesis using Some by (simp add: close_position_none_value only_closes_refl)
      qed
    qed
  qed
qed

subsection \<open>Closing never opens\<close>

lemma only_closes_events [simp]:
  "only_closes (b\<lparr>events := e\<rparr>) b' = only_closes b b'"
  by (simp add: only_closes_def ledger_positions_def)

lemma only_closes_peak [simp]:
  "only_closes b (b\<lparr>peak_portfolio_value := v\<rparr>)"
  by (simp add: only_closes_def ledger_positions_def)

lemma fold_only_closes:
  assumes "\<And>x acc. only_closes (snd acc) (snd (f x acc))"
  shows "only_closes b0 (snd acc) \<Longrightarrow> only_closes b0 (snd (fold f xs acc))"
proof (induction xs arbitrary: acc)
  case Nil
  then show ?case by simp
next
  case (Cons x xs)
  have "only_closes b0 (snd (f x acc))"
    using only_closes_trans [OF Cons.prems assms] .
  then show ?case using Cons.IH by simp
qed

lemma check_position_only_closes:
  "only_closes (snd acc) (snd (check_position tc ex price smb sd label p acc))"
proof (cases acc)
  case (Pair cs b)
  have 1: "only_closes b (snd (close_position tc ex smb sd (b\<lparr>events := e\<rparr>)))" for e
    using close_position_only_closes [of "b\<lparr>events := e\<rparr>" tc ex smb sd] by simp
  show ?thesis
    using 1 by (simp add: Pair check_position_def only_closes_refl split_def)
qed

lemma check_symbol_only_closes:
  "only_closes (snd acc) (snd (check_symbol tc ex price kv acc))"
proof (cases kv)
  case (Pair smb sp)
  have side: "only_closes (snd a)
      (snd (case dict_get sp k of None \<Rightarrow> a
            | Some p \<Rightarrow> check_position tc ex price smb (Some k) (smb @ ''_'' @ side_name k) p a))"
    for k a
    by (simp add: check_position_only_closes only_closes_refl split: option.splits)
  have both: "only_closes (snd acc)
      (snd (fold (\<lambda>k a. case dict_get sp k of None \<Rightarrow> a
                  | Some p \<Rightarrow> check_position tc ex price smb (Some k) (smb @ ''_'' @ side_name k) p a)
             [Long, Short] acc))"
    by (rule fold_only_closes [OF side only_closes_refl])
  show ?thesis
    unfolding Pair check_symbol_def
    using both
    by (auto simp: check_position_only_closes only_closes_refl split: option.splits)
qed

lemma check_stop_loss_take_profit_only_closes:
  "only_closes b (snd (check_stop_loss_take_profit tc ex price b))"
  unfolding check_stop_loss_take_profit_def
  by (rule fold_only_closes [OF check_symbol_only_closes]) (simp add: only_closes_refl)

lemma exit_signal_only_closes:
  "only_closes b (snd (exit_signal tc ex b))"
proof (cases "map_of (positions b) (symbol b)")
  case None
  then show ?thesis by (simp add: exit_signal_def only_closes_refl)
next
  case (Some sp)
  define r1 where "r1 = (if dict_get sp Long \<noteq> None
        then close_position tc ex (symbol b) (Some Long) b else (False, b))"
  define r2 where "r2 = (if dict_get sp Short \<noteq> None
        then close_position tc ex (symbol b) (Some Short) (snd r1) else (False, snd r1))"
  have 1: "only_closes b (snd r1)"
    by (simp add: r1_def close_position_only_closes only_closes_refl)
  have 2: "only_closes (snd r1) (snd r2)"
    by (simp add: r2_def close_position_only_closes only_closes_refl)
  have 3: "only_closes b (snd r2)" using only_closes_trans [OF 1 2] .
  have eq: "snd (exit_signal tc ex b) =
      (if hedge_mode tc \<and> isinstance_dict sp then snd r2
       else if sp \<noteq> PyNone then snd (close_position tc ex (symbol b) None b) else b)"
    using Some by (simp add: exit_signal_def r1_def r2_def split_def)
  show ?thesis
    unfolding eq using 3 by (simp add: close_position_only_closes only_closes_refl)
qed

lemma execute_exit_signal:
  "execute_signal c tc ex 0 price balance b = (Inr (fst (exit_signal tc ex b)), snd (exit_signal tc ex b))"
  by (simp add: execute_signal_def split_def)

lemma check_global_drawdown_keeps:
  "positions (snd (check_global_drawdown v b)) = positions b"
  "orders (snd (check_global_drawdown v b)) = orders b"
  by (simp_all add: check_global_drawdown_def Let_def)

lemma check_global_drawdown_only_closes:
  "only_closes b (snd (check_global_drawdown v b))"
  by (simp add: only_closes_def ledger_positions_def check_global_drawdown_keeps)

lemma execute_exit_only_closes:
  "only_closes b (snd (execute_signal c tc ex 0 price balance b))"
  by (simp add: execute_exit_signal exit_signal_only_closes)

subsection \<open>A missing signal\<close>

text \<open>
  Claim C10. When the latest value of the \<open>Signal\<close> column is NaN,
  \<open>get_current_signal\<close> returns 0, not an entry signal and not None; when the
  strategy raises it returns None. \<open>execute_signal\<close> on the signal 0 raises nothing
  and only closes: it adds no position record to the ledger and every request it sends
  closes a position the ledger held. A pass of the main loop whose signal is 0 likewise
  only closes, and a pass whose signal is None does not reach \<open>execute_signal\<close>:
  ledger and orders stay as they were.
\<close>

theorem missing_signal_holds:
  "(col \<noteq> [] \<and> last col = NaN \<longrightarrow> get_current_signal (Returns (Frame (Some col))) = Some 0)
   \<and> get_current_signal Raises = None
   \<and> (\<exists>r. fst (execute_signal c tc ex 0 price balance b) = Inr r)
   \<and> only_closes b (snd (execute_signal c tc ex 0 price balance b))
   \<and> (get_current_signal out = Some 0 \<longrightarrow>
        only_closes b (snd (run_pass c tc ex portfolio_value data_loaded out price b)))
   \<and> (get_current_signal out = None \<longrightarrow>
        positions (snd (run_pass c tc ex portfolio_value data_loaded out price b)) = positions b
        \<and> orders (snd (run_pass c tc ex portfolio_value data_loaded out price b)) = orders b
        \<and> (\<forall>r. fst (run_pass c tc ex portfolio_value data_loaded out price b) \<noteq> Inr (Executed r)))"
proof (intro conjI impI)
  show "get_current_signal (Returns (Frame (Some col))) = Some 0" if "col \<noteq> [] \<and> last col = NaN"
    using that by (simp add: get_current_signal_def)
  show "get_current_signal Raises = None"
    by (simp add: get_current_signal_def)
  show "\<exists>r. fst (execute_signal c tc ex 0 price balance b) = Inr r"
    by (simp add: execute_exit_signal)
  show "only_closes b (snd (execute_signal c tc ex 0 price balance b))"
    by (rule execute_exit_only_closes)
next
  assume s: "get_current_signal out = Some 0"
  define d where "d = drawdown_step portfolio_value b"
  define m where "m = exits_step tc ex price (snd d)"
  define e where "e = execute_signal c tc ex 0 price (balance_passed c 0 portfolio_value) (snd m)"
  have 1: "only_closes b (snd d)"
    by (simp add: d_def drawdown_step_def check_global_drawdown_only_closes only_closes_refl
             split: option.splits)
  have 2: "only_closes (snd d) (snd m)"
    by (simp add: m_def exits_step_def check_stop_loss_take_profit_only_closes only_closes_refl
             split: option.splits)
  have 3: "only_closes (snd m) (snd e)"
    unfolding e_def by (rule execute_exit_only_closes)
  have 4: "only_closes b (snd e)"
    using only_closes_trans [OF only_closes_trans [OF 1 2] 3] .
  have "snd (run_pass c tc ex portfolio_value data_loaded out price b) = snd d
        \<or> snd (run_pass c tc ex portfolio_value data_loaded out price b) = snd e"
    unfolding run_pass_def d_def [symmetric] s
    by (cases "fst d"; cases "fst e")
       (simp_all add: split_def m_def [symmetric] e_def [symmetric])
  then show "only_closes b (snd (run_pass c tc ex portfolio_value data_loaded out price b))"
    using 1 4 by auto
next
  assume n: "get_current_signal out = None"
  define d where "d = drawdown_step portfolio_value b"
  have k: "positions (snd d) = positions b" "orders (snd d) = orders b"
    by (simp_all add: d_def drawdown_step_def check_global_drawdown_keeps split: option.splits)
  have r: "snd (run_pass c tc ex portfolio_value data_loaded out price b) = snd d
           \<and> (\<forall>r. fst (run_pass c tc ex portfolio_value data_loaded out price b) \<noteq> Inr (Executed r))"
    unfolding run_pass_def d_def [symmetric] n
    by (cases "fst d") (simp_all add: split_def)
  show "positions (snd (run_pass c tc ex portfolio_value data_loaded out price b)) = positions b"
    using r k by simp
  show "orders (snd (run_pass c tc ex portfolio_value data_loaded out price b)) = orders b"
    using r k by simp
  show "\<forall>r. fst (run_pass c tc ex portfolio_value data_loaded out price b) \<noteq> Inr (Executed r)"
    using r by simp
qed

text \<open>
  A frame whose last signal is NaN, on a ledger with a long position in hedge mode: the
  pass closes the long and opens nothing. A strategy that raises: the pass changes
  neither ledger nor orders.
\<close>

theorem missing_signal_holds_witness:
  "get_current_signal (Returns (Frame (Some [Num 1, NaN]))) = Some 0
   \<and> only_closes btc_long_hedge
        (snd (run_pass config_py hedge accept_all (Some 100000) True
                (Returns (Frame (Some [Num 1, NaN]))) (Some 100) btc_long_hedge))
   \<and> get_current_signal Raises = None
   \<and> positions (snd (run_pass config_py hedge accept_all (Some 100000) True Raises (Some 100)
                       btc_long_hedge)) = positions btc_long_hedge
   \<and> orders (snd (run_pass config_py hedge accept_all (Some 100000) True Raises (Some 100)
                    btc_long_hedge)) = orders btc_long_hedge"
proof -
  have s: "get_current_signal (Returns (Frame (Some [Num 1, NaN]))) = Some 0"
    by (simp add: get_current_signal_def)
  have n: "get_current_signal Raises = None"
    by (simp add: get_current_signal_def)
  show ?thesis
    using s n
      missing_signal_holds [where out = "Returns (Frame (Some [Num 1, NaN]))"
        and b = btc_long_hedge and c = config_py and tc = hedge and ex = accept_all
        and portfolio_value = "Some 100000" and data_loaded = True and price = "Some 100"]
      missing_signal_holds [where out = Raises
        and b = btc_long_hedge and c = config_py and tc = hedge and ex = accept_all
        and portfolio_value = "Some 100000" and data_loaded = True and price = "Some 100"]
    by simp
qed

subsection \<open>Defects\<close>

text \<open>
  The four results below evaluate the code where it departs from what is claimed. The
  first three have one cause. In one-way mode \<open>execute_signal\<close> stores the dict
  \<^verbatim>\<open>position_data\<close> itself as the ledger value, and the one-way blocks of
  \<open>execute_signal\<close>, \<open>close_position\<close> and \<open>check_stop_loss_take_profit\<close>, and the
  hedge-mode count of \<open>can_open_new_position\<close>, then test
  \<^verbatim>\<open>isinstance(symbol_positions, dict)\<close> to recognise a hedge-mode structure. The
  test holds for \<^verbatim>\<open>position_data\<close> too, which has no key \<^verbatim>\<open>'long'\<close> or
  \<^verbatim>\<open>'short'\<close>, so the stored position is read as an empty structure.
\<close>

text \<open>
  Claim C5, at the input where the code fails it. One-way mode, a long position as
  \<open>execute_signal\<close> recorded it, and the signal 1 again: the ledger entry is set to
  None, a second buy order of 500 is placed, and the position is recorded anew.
\<close>

theorem repeated_signal_one_way:
  "execute_signal config_py one_way accept_all 1 (Some 100) (Some 100000) btc_long_one_way
     = (Inr True,
        btc_long_one_way\<lparr>orders := [(\<lparr> order_side = Buy, amount = 500, position_idx = ''0'' \<rparr>, True)]\<rparr>)"
  by code_simp

text \<open>In hedge mode the repeated signal is the no-operation the claim describes.\<close>

lemma repeated_signal_hedge:
  assumes "hedge_mode tc" "signal \<noteq> 0" "map_of (positions b) (symbol b) = Some sp"
    "dict_get sp (side_key_of signal) = Some p"
  shows "execute_signal c tc ex signal price None b = (Inr False, b)"
  using assms dict_get_Some_dict [OF assms(4)]
  by (simp add: execute_signal_def kill_switch_def prepare_symbol_def track_symbol_def
        hedge_block_def Let_def)

text \<open>
  Claim C6, at the input where the code fails it. One-way mode, the same long position
  with its stop at 98, and a price of 97: the stop-loss condition holds, yet nothing is
  closed, no order is sent and no trigger is logged.
\<close>

theorem exit_monitor_one_way:
  "stop_loss_hit long_100 97
   \<and> check_stop_loss_take_profit one_way accept_all 97 btc_long_one_way = ([], btc_long_one_way)"
  by code_simp

text \<open>
  In hedge mode the same position is closed, through the stop-loss branch; and for any
  position the stop-loss condition is tested first, so a price that meets both conditions
  takes the stop-loss branch.
\<close>

lemma stop_loss_checked_first:
  "stop_loss_hit p price \<Longrightarrow>
   check_position tc ex price smb sd label p (closed_symbols, b) =
     (case close_position tc ex smb sd (b\<lparr>events := events b @ [StopLossTriggered smb sd]\<rparr>) of
        (ok, b1) \<Rightarrow> (if ok then closed_symbols @ [label] else closed_symbols, b1))"
  by (simp add: check_position_def)


lemma exit_monitor_hedge:
  "check_stop_loss_take_profit hedge accept_all 97 btc_long_hedge =
     ([''BTC/USDT_long''],
      btc_long_hedge\<lparr>positions := [(''BTC/USDT'', PyNone)],
        orders := [(\<lparr> order_side = Sell, amount = 500, position_idx = ''1'' \<rparr>, True)],
        events := [StopLossTriggered ''BTC/USDT'' (Some Long)]\<rparr>)"
  by code_simp

text \<open>
  Claim C7, at the inputs where the code fails it. A limit of one concurrent trade and a
  long position as a one-way entry recorded it. In one-way mode the count is 1, at the
  limit, yet an entry signal is not refused: the one-way block has set the entry of the
  symbol to None before the gate is consulted, and the buy order is sent. With a second
  symbol holding a position the same signal is refused, and the position of the bot's
  symbol is gone from the ledger all the same. In hedge mode the position counts as no
  slot at all, because the branch commented \<^verbatim>\<open>Legacy format (one-way mode)\<close> of
  \<open>can_open_new_position\<close> is taken only for a value that is not a dict: a short entry
  passes the gate and its order is sent.
\<close>

theorem concurrency_gate_misses_position:
  "active_count False btc_long_limit_one = 1
   \<and> \<not> can_open_new_position False btc_long_limit_one
   \<and> execute_signal config_py one_way accept_all 1 (Some 100) (Some 100000) btc_long_limit_one
       = (Inr True,
          btc_long_limit_one\<lparr>
            orders := [(\<lparr> order_side = Buy, amount = 500, position_idx = ''0'' \<rparr>, True)]\<rparr>)
   \<and> execute_signal config_py one_way accept_all 1 (Some 100) (Some 100000) eth_btc_long_limit_one
       = (Inr False,
          eth_btc_long_limit_one\<lparr>
            positions := [(''ETH/USDT'', PyDict (Some long_100) None None),
                          (''BTC/USDT'', PyNone)]\<rparr>)
   \<and> active_count True btc_long_limit_one = 0
   \<and> can_open_new_position True btc_long_limit_one
   \<and> execute_signal config_py hedge accept_all (- 1) (Some 100) (Some 100000) btc_long_limit_one
       = (Inr True,
          btc_long_limit_one\<lparr>
            positions := [(''BTC/USDT'', PyDict (Some long_100) None (Some short_100))],
            orders := [(\<lparr> order_side = Sell, amount = 500, position_idx = ''2'' \<rparr>, True)]\<rparr>)"
  by code_simp

text \<open>
  Claim C9, at the input where the code fails it. An order size of 10 on an instrument
  with quantity step 1 and minimum 1 rounds to 10, which is written \<^verbatim>\<open>'10'\<close> with no
  decimal places; \<^verbatim>\<open>rstrip('0')\<close> then removes the zero of the integer part and the
  quantity sent is \<^verbatim>\<open>'1'\<close>.
\<close>

theorem quantity_trailing_zero:
  "btc_amount_rounded 10 1 1 = 10
   \<and> format_fixed 10 0 = ''10''
   \<and> quantity 10 (Some \<lparr> qtyStep = Some 1, minOrderQty = Some 1 \<rparr>) = ''1''"
  by code_simp

text \<open>With the default step of 0.001 the example of the specification comes out.\<close>

lemma quantity_default_step:
  "quantity 0.5244 None = ''0.524'' \<and> quantity 0.0004 None = ''0.001''"
  by code_simp

subsection \<open>What the steps of execute_signal keep and change\<close>

lemma hedge_slots_alt:
  "hedge_slots sp = (if dict_get sp Long \<noteq> None then 1 else 0)
                    + (if dict_get sp Short \<noteq> None then 1 else 0)"
  by (cases sp) (simp_all add: hedge_slots_def)

lemma kill_switch_passed:
  assumes "kill_switch balance b = (r, b0)"
  shows "b0 = b\<lparr>peak_portfolio_value := peak_portfolio_value b0\<rparr>"
  using assms
  by (auto simp: kill_switch_def check_global_drawdown_def Let_def split: option.splits if_splits)

lemma open_position_refused:
  "\<not> can_open_new_position (hedge_mode tc) b \<Longrightarrow> open_position c tc ex signal price b = (Inr False, b)"
  by (simp add: open_position_def)

lemma open_position_orders:
  assumes "can_open_new_position (hedge_mode tc) b"
    "determine_position_size c tc signal pr b = Some sz"
  shows "orders (snd (open_position c tc ex signal (Some pr) b)) =
           orders b @ [(entry_request tc signal sz, ex (length (orders b)) (entry_request tc signal sz))]"
  using assms
  by (simp add: open_position_def place_market_order_def Let_def entry_request_def
           split: option.splits)

lemma update_twice: "AList.update k v (AList.update k w ps) = AList.update k v ps"
  by (induction ps) auto

lemma map_of_update_same: "map_of (AList.update k v ps) k = Some v"
  by (simp add: AList.update_conv')

lemma from_hedge_Some_dict: "from_hedge_structure sp = Some p \<Longrightarrow> isinstance_dict sp"
  by (cases sp) (simp_all add: from_hedge_structure_def)

lemma from_hedge_stored: "from_hedge_structure (stored x) = None"
  by (cases x) (simp_all add: from_hedge_structure_def)

lemma isinstance_stored: "isinstance_dict (stored (Some p))"
  by simp

lemma prepare_symbol_reversal:
  assumes "\<not> hedge_mode tc" "signal = 1 \<or> signal = - 1"
    "map_of (positions b) (symbol b) = Some sp" "from_hedge_structure sp = Some p"
    "side p = - signal"
  shows "prepare_symbol tc ex signal b =
           (Continue, b\<lparr>positions := AList.update (symbol b) PyNone (positions b)\<rparr>)"
proof -
  define b2 where "b2 = b\<lparr>positions := AList.update (symbol b) (stored (Some p)) (positions b)\<rparr>"
  have d: "isinstance_dict sp" using from_hedge_Some_dict [OF assms(4)] .
  then have nn: "sp \<noteq> PyNone" by auto
  have l2: "map_of (positions b2) (symbol b) = Some (stored (Some p))"
    by (simp add: b2_def map_of_update_same)
  have c: "close_position tc ex (symbol b) None b2 =
             (False, b2\<lparr>positions := AList.update (symbol b) PyNone (positions b2)\<rparr>)"
    using close_position_one_way_dict [OF assms(1) l2 isinstance_stored, of ex None]
    by (simp add: from_hedge_stored [of "Some p", simplified])
  have rev: "(signal = 1 \<and> side p = - 1) \<or> (signal = - 1 \<and> side p = 1)"
    using assms(2,5) by auto
  have s2: "symbol b2 = symbol b" by (simp add: b2_def)
  have t: "track_symbol tc b = b"
    using assms(3) by (simp add: track_symbol_def)
  show ?thesis
    unfolding prepare_symbol_def t one_way_block_def
    using assms(1,3,4) d nn rev c
    by (simp add: Let_def b2_def [symmetric] s2) (simp add: b2_def update_twice)
qed

lemma open_position_one_way:
  assumes "\<not> hedge_mode tc"
  shows "open_position c tc ex signal price b =
     (if \<not> can_open_new_position False b then (Inr False, b)
      else case price of
        None \<Rightarrow> (Inl TypeError, b)
      | Some pr \<Rightarrow>
          (case determine_position_size c tc signal pr b of
             None \<Rightarrow> (Inr False, b)
           | Some sz \<Rightarrow>
               if ex (length (orders b)) (entry_request tc signal sz)
               then (Inr True,
                     b\<lparr>orders := orders b @ [(entry_request tc signal sz, True)],
                       positions := AList.update (symbol b)
                          (stored (Some (position_data signal sz pr b))) (positions b)\<rparr>)
               else (Inr False, b\<lparr>orders := orders b @ [(entry_request tc signal sz, False)]\<rparr>)))"
  using assms
  by (simp add: open_position_def place_market_order_def Let_def entry_request_def
        position_data_def split: option.splits)








lemma ledger_orders [simp]: "ledger_positions (b\<lparr>orders := os\<rparr>) = ledger_positions b"
  by (simp add: ledger_positions_def)

lemma ledger_peak [simp]: "ledger_positions (b\<lparr>peak_portfolio_value := v\<rparr>) = ledger_positions b"
  by (simp add: ledger_positions_def)

lemma kill_switch_ledger:
  "ledger_positions (snd (kill_switch balance b)) = ledger_positions b"
  by (simp add: kill_switch_def check_global_drawdown_def Let_def split: option.splits)




lemma track_symbol_lookup:
  "map_of (positions (track_symbol tc b)) (symbol b) \<noteq> None"
  by (auto simp: track_symbol_def map_of_update_same)

lemma track_symbol_symbol [simp]: "symbol (track_symbol tc b) = symbol b"
  by (simp add: track_symbol_def)












lemma held_update_absent:
  "map_of ps k = None \<Longrightarrow>
   (\<Union>kv \<in> set (AList.update k v ps). held (snd kv)) = (\<Union>kv \<in> set ps. held (snd kv)) \<union> held v"
  by (induction ps) (auto split: if_splits)

lemma held_update_same:
  "map_of ps k = Some w \<Longrightarrow> held v = held w \<Longrightarrow>
   (\<Union>kv \<in> set (AList.update k v ps). held (snd kv)) = (\<Union>kv \<in> set ps. held (snd kv))"
  by (induction ps) (auto split: if_splits)

lemma track_symbol_keeps:
  "orders (track_symbol tc b) = orders b
   \<and> ledger_positions (track_symbol tc b) = ledger_positions b"
  using held_update_absent [of "positions b" "symbol b"
      "if hedge_mode tc then PyDict None None None else PyNone"]
  by (auto simp: track_symbol_def ledger_positions_def)

lemma hedge_block_keeps:
  assumes "map_of (positions b) (symbol b) = Some sp"
  shows "orders (snd (hedge_block signal sp b)) = orders b
         \<and> ledger_positions (snd (hedge_block signal sp b)) = ledger_positions b"
proof (cases "isinstance_dict sp")
  case True
  then show ?thesis by (simp add: hedge_block_def)
next
  case False
  then have "sp = PyNone" by (simp add: not_dict_iff)
  then show ?thesis
    using held_update_same [OF assms, of "PyDict None None None"] False
    by (simp add: hedge_block_def ledger_positions_def)
qed

lemma prepare_symbol_hedge_keeps:
  assumes "hedge_mode tc"
  shows "orders (snd (prepare_symbol tc ex signal b)) = orders b
         \<and> ledger_positions (snd (prepare_symbol tc ex signal b)) = ledger_positions b"
proof -
  obtain sp where look: "map_of (positions (track_symbol tc b)) (symbol b) = Some sp"
    using track_symbol_lookup [of tc b] by auto
  then have look': "map_of (positions (track_symbol tc b)) (symbol (track_symbol tc b)) = Some sp"
    by simp
  show ?thesis
    using hedge_block_keeps [OF look', of signal] track_symbol_keeps [of tc b] assms
    by (simp add: prepare_symbol_def look Let_def)
qed

lemma kill_switch_orders:
  "orders (snd (kill_switch balance b)) = orders b"
  by (simp add: kill_switch_def check_global_drawdown_keeps split: option.splits)

subsection \<open>The concurrency gate\<close>

text \<open>
  What the gate does on the state it is given. \<open>can_open_new_position\<close> allows an
  entry exactly when its count is below \<open>max_concurrent_trades\<close>; the count adds, in
  hedge mode, one for the long and one for the short entry of every symbol, and is, in
  one-way mode, the number of entries that are not None. In \<open>execute_signal\<close> the gate
  is consulted on the state \<open>bg\<close> reached after the drawdown check and the preparation
  of the symbol: with the count at or above the limit the method returns False there and
  the state stays \<open>bg\<close>; with the count below the limit, and price and size available,
  the entry order is sent. In hedge mode the preparation sends no order and keeps every
  position record.
\<close>

lemma gate_on_prepared_state:
  "(can_open_new_position hm b \<longleftrightarrow> int (active_count hm b) < max_concurrent_trades b)
   \<and> active_count True b =
        (\<Sum>kv\<leftarrow>positions b. (if dict_get (snd kv) Long \<noteq> None then 1 else 0)
                              + (if dict_get (snd kv) Short \<noteq> None then 1 else 0))
   \<and> active_count False b = length (filter (\<lambda>kv. snd kv \<noteq> PyNone) (positions b))
   \<and> (signal \<noteq> 0 \<and> kill_switch balance b = (Inr False, bk)
        \<and> prepare_symbol tc ex signal bk = (Continue, bg) \<longrightarrow>
        (max_concurrent_trades bg \<le> int (active_count (hedge_mode tc) bg) \<longrightarrow>
           execute_signal c tc ex signal price balance b = (Inr False, bg))
        \<and> (int (active_count (hedge_mode tc) bg) < max_concurrent_trades bg
             \<and> price = Some pr \<and> determine_position_size c tc signal pr bg = Some sz \<longrightarrow>
             orders (snd (execute_signal c tc ex signal price balance b)) =
               orders bg @ [(entry_request tc signal sz,
                             ex (length (orders bg)) (entry_request tc signal sz))])
        \<and> (hedge_mode tc \<longrightarrow>
             orders bg = orders b \<and> ledger_positions bg = ledger_positions b))"
proof (intro conjI impI)
  show "can_open_new_position hm b \<longleftrightarrow> int (active_count hm b) < max_concurrent_trades b"
    by (auto simp: can_open_new_position_def)
  show "active_count True b =
        (\<Sum>kv\<leftarrow>positions b. (if dict_get (snd kv) Long \<noteq> None then 1 else 0)
                              + (if dict_get (snd kv) Short \<noteq> None then 1 else 0))"
    by (simp add: active_count_def hedge_slots_alt)
  show "active_count False b = length (filter (\<lambda>kv. snd kv \<noteq> PyNone) (positions b))"
    by (simp add: active_count_def filter_map comp_def)
next
  assume h: "signal \<noteq> 0 \<and> kill_switch balance b = (Inr False, bk)
        \<and> prepare_symbol tc ex signal bk = (Continue, bg)"
  then have e: "execute_signal c tc ex signal price balance b = open_position c tc ex signal price bg"
    by (simp add: execute_signal_def)
  show "execute_signal c tc ex signal price balance b = (Inr False, bg)"
    if "max_concurrent_trades bg \<le> int (active_count (hedge_mode tc) bg)"
    using that by (simp add: e open_position_refused can_open_new_position_def)
  show "orders (snd (execute_signal c tc ex signal price balance b)) =
               orders bg @ [(entry_request tc signal sz,
                             ex (length (orders bg)) (entry_request tc signal sz))]"
    if "int (active_count (hedge_mode tc) bg) < max_concurrent_trades bg
             \<and> price = Some pr \<and> determine_position_size c tc signal pr bg = Some sz"
  proof -
    from that have g: "can_open_new_position (hedge_mode tc) bg"
      and p: "price = Some pr"
      and d: "determine_position_size c tc signal pr bg = Some sz"
      by (simp_all add: can_open_new_position_def)
    show ?thesis
      using open_position_orders [OF g d, of ex] e p by simp
  qed
  have k: "orders bk = orders b" "ledger_positions bk = ledger_positions b"
    using h kill_switch_orders [of balance b] kill_switch_ledger [of balance b] by simp_all
  show "orders bg = orders b" if "hedge_mode tc"
    using h k prepare_symbol_hedge_keeps [OF that, of ex signal bk] by simp
  show "ledger_positions bg = ledger_positions b" if "hedge_mode tc"
    using h k prepare_symbol_hedge_keeps [OF that, of ex signal bk] by simp
qed

text \<open>
  With a limit of 2 and long positions on ETH/USDT and SOL/USDT, an entry signal for
  BTC/USDT is refused; once the ETH/USDT entry is None the same signal sends its order.
\<close>

lemma gate_on_prepared_state_example:
  "(1 :: int) \<noteq> 0
   \<and> kill_switch None two_open = (Inr False, two_open)
   \<and> prepare_symbol hedge accept_all 1 two_open
       = (Continue, two_open\<lparr>positions := positions two_open @ [(''BTC/USDT'', PyDict None None None)]\<rparr>)
   \<and> active_count True two_open = 2
   \<and> execute_signal config_py hedge accept_all 1 (Some 100) None two_open
       = (Inr False, two_open\<lparr>positions := positions two_open @ [(''BTC/USDT'', PyDict None None None)]\<rparr>)
   \<and> kill_switch None one_open = (Inr False, one_open)
   \<and> prepare_symbol hedge accept_all 1 one_open
       = (Continue, one_open\<lparr>positions := positions one_open @ [(''BTC/USDT'', PyDict None None None)]\<rparr>)
   \<and> orders (snd (execute_signal config_py hedge accept_all 1 (Some 100) None one_open))
       = [(entry_request hedge 1 500, True)]"
proof -
  define t2 where "t2 = two_open\<lparr>positions := positions two_open @ [(''BTC/USDT'', PyDict None None None)]\<rparr>"
  define t1 where "t1 = one_open\<lparr>positions := positions one_open @ [(''BTC/USDT'', PyDict None None None)]\<rparr>"
  have k2: "kill_switch None two_open = (Inr False, two_open)" by (simp add: kill_switch_def)
  have k1: "kill_switch None one_open = (Inr False, one_open)" by (simp add: kill_switch_def)
  have p2: "prepare_symbol hedge accept_all 1 two_open = (Continue, t2)"
    unfolding t2_def by code_simp
  have p1: "prepare_symbol hedge accept_all 1 one_open = (Continue, t1)"
    unfolding t1_def by code_simp
  have c0: "active_count True two_open = 2" by code_simp
  have c2: "max_concurrent_trades t2 \<le> int (active_count (hedge_mode hedge) t2)"
    unfolding t2_def by code_simp
  have c1: "int (active_count (hedge_mode hedge) t1) < max_concurrent_trades t1"
    unfolding t1_def by code_simp
  have d1: "determine_position_size config_py hedge 1 100 t1 = Some 500"
    unfolding t1_def by code_simp
  have o1: "orders t1 = []" "accept_all 0 (entry_request hedge 1 500)"
    by (simp_all add: t1_def one_open_def btc_bot_def init_bot_def accept_all_def)
  have a: "execute_signal config_py hedge accept_all 1 (Some 100) None two_open = (Inr False, t2)"
    using gate_on_prepared_state [where signal = 1 and balance = None and b = two_open and bk = two_open
        and bg = t2 and tc = hedge and ex = accept_all and c = config_py and price = "Some 100"]
      k2 p2 c2
    by simp
  have b: "orders (snd (execute_signal config_py hedge accept_all 1 (Some 100) None one_open))
             = [(entry_request hedge 1 500, True)]"
    using gate_on_prepared_state [where signal = 1 and balance = None and b = one_open and bk = one_open
        and bg = t1 and tc = hedge and ex = accept_all and c = config_py and price = "Some 100"
        and pr = 100 and sz = 500]
      k1 p1 c1 d1 o1
    by simp
  show ?thesis
    using k2 k1 p2 p1 c0 a b by (simp add: t2_def t1_def)
qed

subsection \<open>Reversal in one-way mode\<close>

text \<open>
  Claim C1, as the code has it. In one-way mode, on a signal opposite to the position that
  the one-way block finds for the symbol, the close leg returns False and
  \<open>execute_signal\<close> does not abort: it sets the ledger entry of the symbol to None and
  goes on to the concurrency gate, the sizing and the entry order. The entry of the symbol
  ends as None, or, when the method returns True, as a position on the side of the signal;
  it never ends as the old position. When the gate lets the entry pass and price and size
  are available, the last request sent is the entry order, the method returns its
  outcome, and the ledger entry is the new position if the order succeeded and None if it
  did not.
\<close>

theorem reversal_continues_to_open:
  assumes "\<not> hedge_mode tc" "signal = 1 \<or> signal = - 1"
    "map_of (positions b) (symbol b) = Some sp" "from_hedge_structure sp = Some p"
    "side p = - signal" "kill_switch balance b = (Inr False, bk)"
  shows "\<not> fst (close_position tc ex (symbol b) None
               (bk\<lparr>positions := AList.update (symbol b) (stored (Some p)) (positions b)\<rparr>))
    \<and> (map_of (positions (snd (execute_signal c tc ex signal price balance b))) (symbol b)
          = Some PyNone
        \<or> (fst (execute_signal c tc ex signal price balance b) = Inr True
            \<and> (\<exists>q. side q = signal
                 \<and> map_of (positions (snd (execute_signal c tc ex signal price balance b))) (symbol b)
                     = Some (stored (Some q)))))
    \<and> (can_open_new_position False (b\<lparr>positions := AList.update (symbol b) PyNone (positions b)\<rparr>)
         \<and> price = Some pr \<and> determine_position_size c tc signal pr b = Some sz \<longrightarrow>
        orders (snd (execute_signal c tc ex signal price balance b)) \<noteq> []
        \<and> fst (last (orders (snd (execute_signal c tc ex signal price balance b))))
            = entry_request tc signal sz
        \<and> fst (execute_signal c tc ex signal price balance b)
            = Inr (snd (last (orders (snd (execute_signal c tc ex signal price balance b)))))
        \<and> map_of (positions (snd (execute_signal c tc ex signal price balance b))) (symbol b)
            = Some (if snd (last (orders (snd (execute_signal c tc ex signal price balance b))))
                    then stored (Some (position_data signal sz pr b)) else PyNone))"
proof -
  have bk_eq: "bk = b\<lparr>peak_portfolio_value := peak_portfolio_value bk\<rparr>"
    using kill_switch_passed [OF assms(6)] .
  have same: "positions bk = positions b" "symbol bk = symbol b"
    "max_concurrent_trades bk = max_concurrent_trades b" "stop_loss_pct bk = stop_loss_pct b"
    "take_profit_pct bk = take_profit_pct b" "orders bk = orders b"
    by (subst bk_eq, simp)+
  define b1 where "b1 = bk\<lparr>positions := AList.update (symbol b) PyNone (positions b)\<rparr>"
  have nz: "signal \<noteq> 0" using assms(2) by auto
  have prep: "prepare_symbol tc ex signal bk = (Continue, b1)"
    using prepare_symbol_reversal [OF assms(1,2), of bk sp p ex] assms(3,4,5)
    by (simp add: same b1_def)
  have e: "execute_signal c tc ex signal price balance b = open_position c tc ex signal price b1"
    using nz assms(6) prep by (simp add: execute_signal_def)
  have g: "can_open_new_position False b1
           = can_open_new_position False (b\<lparr>positions := AList.update (symbol b) PyNone (positions b)\<rparr>)"
    by (simp add: can_open_new_position_def active_count_def b1_def same)
  have sz: "determine_position_size c tc signal x b1 = determine_position_size c tc signal x b" for x
    by (simp add: determine_position_size_def b1_def same)
  have pd: "position_data signal x y b1 = position_data signal x y b" for x y
    by (simp add: position_data_def b1_def same)
  have l1: "map_of (positions b1) (symbol b) = Some PyNone"
    by (simp add: b1_def map_of_update_same)
  have s1: "symbol b1 = symbol b"
    by (simp add: b1_def same)
  have side_pd: "side (position_data signal x y z) = signal" for x y z
    by (simp add: position_data_def)
  have close: "\<not> fst (close_position tc ex (symbol b) None
               (bk\<lparr>positions := AList.update (symbol b) (stored (Some p)) (positions b)\<rparr>))"
    using close_position_one_way_dict [OF assms(1), of
        "bk\<lparr>positions := AList.update (symbol b) (stored (Some p)) (positions b)\<rparr>"
        "symbol b" "stored (Some p)" ex None]
    by (simp add: map_of_update_same from_hedge_stored [of "Some p", simplified])
  have first: "map_of (positions (snd (open_position c tc ex signal price b1))) (symbol b)
          = Some PyNone
        \<or> (fst (open_position c tc ex signal price b1) = Inr True
            \<and> (\<exists>q. side q = signal
                 \<and> map_of (positions (snd (open_position c tc ex signal price b1))) (symbol b)
                     = Some (stored (Some q))))"
    unfolding open_position_one_way [OF assms(1)]
    using l1 side_pd
    by (auto simp: s1 map_of_update_same split: option.splits)
  have second: "orders (snd (open_position c tc ex signal price b1)) \<noteq> []
        \<and> fst (last (orders (snd (open_position c tc ex signal price b1))))
            = entry_request tc signal sz
        \<and> fst (open_position c tc ex signal price b1)
            = Inr (snd (last (orders (snd (open_position c tc ex signal price b1)))))
        \<and> map_of (positions (snd (open_position c tc ex signal price b1))) (symbol b)
            = Some (if snd (last (orders (snd (open_position c tc ex signal price b1))))
                    then stored (Some (position_data signal sz pr b)) else PyNone)"
    if "can_open_new_position False (b\<lparr>positions := AList.update (symbol b) PyNone (positions b)\<rparr>)
         \<and> price = Some pr \<and> determine_position_size c tc signal pr b = Some sz"
    unfolding open_position_one_way [OF assms(1)]
    using that l1
    by (simp add: g sz pd s1 map_of_update_same)
  show ?thesis
    unfolding e using close first second by blast
qed

text \<open>
  A long position found by the one-way block, a short signal, and an exchange that
  rejects every order: the entry order is sent and rejected, the entry ends None.
\<close>

theorem reversal_continues_to_open_witness:
  "\<not> hedge_mode one_way
   \<and> map_of (positions btc_long_hedge) (symbol btc_long_hedge)
       = Some (PyDict None (Some long_100) None)
   \<and> from_hedge_structure (PyDict None (Some long_100) None) = Some long_100
   \<and> side long_100 = - (- 1)
   \<and> kill_switch (Some 100000) btc_long_hedge = (Inr False, btc_long_hedge)
   \<and> fst (last (orders (snd (execute_signal config_py one_way reject_all (- 1) (Some 100)
                               (Some 100000) btc_long_hedge))))
       = entry_request one_way (- 1) 500
   \<and> fst (execute_signal config_py one_way reject_all (- 1) (Some 100) (Some 100000) btc_long_hedge)
       = Inr False
   \<and> map_of (positions (snd (execute_signal config_py one_way reject_all (- 1) (Some 100)
                               (Some 100000) btc_long_hedge))) (symbol btc_long_hedge)
       = Some PyNone"
proof -
  have h1: "\<not> hedge_mode one_way" by (simp add: one_way_def)
  have h2: "(- 1 :: int) = 1 \<or> (- 1 :: int) = - 1" by simp
  have h3: "map_of (positions btc_long_hedge) (symbol btc_long_hedge)
              = Some (PyDict None (Some long_100) None)"
    by (simp add: btc_long_hedge_def btc_bot_def init_bot_def)
  have h4: "from_hedge_structure (PyDict None (Some long_100) None) = Some long_100"
    by (simp add: from_hedge_structure_def)
  have h5: "side long_100 = - (- 1)" by (simp add: long_100_def)
  have h6: "kill_switch (Some 100000) btc_long_hedge = (Inr False, btc_long_hedge)"
    by code_simp
  have g: "can_open_new_position False
             (btc_long_hedge\<lparr>positions :=
                AList.update (symbol btc_long_hedge) PyNone (positions btc_long_hedge)\<rparr>)"
    by code_simp
  have d: "determine_position_size config_py one_way (- 1) 100 btc_long_hedge = Some 500"
    by code_simp
  have r: "\<not> snd (last (orders (snd (execute_signal config_py one_way reject_all (- 1) (Some 100)
                               (Some 100000) btc_long_hedge))))"
    by code_simp
  show ?thesis
    using h1 h3 h4 h5 h6 g d r
      reversal_continues_to_open [OF h1 h2 h3 h4 h5 h6,
        where ex = reject_all and c = config_py and price = "Some 100" and pr = 100 and sz = 500]
    by simp
qed

text \<open>
  The claim as stated fails. Same state, an exchange that accepts orders: the close leg
  returns False, yet an order is placed and the ledger ends with a short position, not
  flat.
\<close>

theorem reversal_counterexample:
  "\<not> fst (close_position one_way accept_all ''BTC/USDT'' None btc_long_one_way)
   \<and> execute_signal config_py one_way accept_all (- 1) (Some 100) (Some 100000) btc_long_hedge
       = (Inr True,
          btc_long_hedge\<lparr>positions := [(''BTC/USDT'', PyDict (Some short_100) None None)],
            orders := [(\<lparr> order_side = Sell, amount = 500, position_idx = ''0'' \<rparr>, True)]\<rparr>)"
  by code_simp

subsection \<open>What the ledger keeps, entry by entry\<close>





















lemma dict_get_empty [simp]: "dict_get (PyDict None None None) k = None"
  by (cases k) simp_all







subsection \<open>The ledger and the exchange's confirmation\<close>




end
